theory Spec2Isabelle
  imports Complex_Main "HOL-Library.Word"
begin

section \<open>Outcomes of Go calls\<close>

text \<open>
  A Go call either returns or panics with a run-time error. The two run-time errors that
  the code of \<^verbatim>\<open>pkg/api/v1/state.go\<close> can raise are an index out of range and a
  nil pointer dereference.
\<close>

datatype runtime_error = IndexOutOfRange | NilDereference

datatype 'a outcome = Return 'a | Panic runtime_error

section \<open>decodeRLE\<close>

type_synonym int32 = "32 word"

text \<open>
  The inner loop of \<^verbatim>\<open>decodeRLE\<close>:
  \<^verbatim>\<open>for cellRepeatCount := encodedData[idx+1]; cellRepeatCount > 0; cellRepeatCount-- {
       decodedResult = append(decodedResult, encodedData[idx]) }\<close>
  The counter is an int32, compared as a signed number.
\<close>

function repeat_loop :: "int32 \<Rightarrow> int32 \<Rightarrow> int32 list \<Rightarrow> int32 list" where
  "repeat_loop v cellRepeatCount decodedResult =
     (if 0 <s cellRepeatCount
      then repeat_loop v (cellRepeatCount - 1) (decodedResult @ [v])
      else decodedResult)"
  by pat_completeness auto

termination repeat_loop
proof (relation "measure (\<lambda>(v, c, acc). nat (sint c))")
  show "wf (measure (\<lambda>(v, c, acc). nat (sint c)))"
    by simp
next
  fix v cellRepeatCount :: int32 and decodedResult :: "int32 list"
  assume pos: "0 <s cellRepeatCount"
  have up: "sint cellRepeatCount < 2 ^ 31"
    using sint_lt [of cellRepeatCount] by simp
  from pos have lo: "0 < sint cellRepeatCount"
    by (simp add: word_sless_alt)
  have "sint (cellRepeatCount - 1) = signed_take_bit 31 (sint cellRepeatCount - 1)"
    by (simp add: sint_word_ariths)
  also have "\<dots> = sint cellRepeatCount - 1"
    using lo up by (simp add: signed_take_bit_int_eq_self)
  finally have "sint (cellRepeatCount - 1) = sint cellRepeatCount - 1" .
  with lo
  show "((v, cellRepeatCount - 1, decodedResult @ [v]), (v, cellRepeatCount, decodedResult))
          \<in> measure (\<lambda>(v, c, acc). nat (sint c))"
    by simp
qed

declare repeat_loop.simps [simp del]

text \<open>
  The outer loop, \<^verbatim>\<open>for idx := 0; idx < len; idx += 2\<close>. The index is a Go \<^verbatim>\<open>int\<close>;
  it never exceeds the length of the slice, so it is a natural number here. Both reads
  of \<^verbatim>\<open>encodedData\<close> are bounds-checked, as Go does: \<^verbatim>\<open>encodedData[idx+1]\<close> is read
  first, when the inner loop is initialised.
\<close>

function decode_loop :: "int32 list \<Rightarrow> nat \<Rightarrow> int32 list \<Rightarrow> int32 list outcome" where
  "decode_loop encodedData idx decodedResult =
     (if idx < length encodedData
      then (if idx + 1 < length encodedData
            then decode_loop encodedData (idx + 2)
                   (repeat_loop (encodedData ! idx) (encodedData ! (idx + 1)) decodedResult)
            else Panic IndexOutOfRange)
      else Return decodedResult)"
  by pat_completeness auto
termination
  by (relation "measure (\<lambda>(enc, idx, acc). length enc - idx)") auto

declare decode_loop.simps [simp del]

text \<open>
  \<^verbatim>\<open>var decodedResult []int32\<close> starts as the nil slice, which is the empty sequence;
  it is returned untouched when the length is odd.
\<close>

definition decodeRLE :: "int32 list \<Rightarrow> int32 list outcome" where
  "decodeRLE encodedData =
     (if length encodedData mod 2 = 0
      then decode_loop encodedData 0 []
      else Return [])"

subsection \<open>The run-length pairs of an encoded sequence\<close>

text \<open>
  The specification reads the encoded data as (value, runLength) pairs; an odd last
  element belongs to no pair.
\<close>

fun pairs :: "'a list \<Rightarrow> ('a \<times> 'a) list" where
  "pairs (v # n # rest) = (v, n) # pairs rest"
| "pairs _ = []"

definition expand :: "int32 \<times> int32 \<Rightarrow> int32 list" where
  "expand p = replicate (nat (sint (snd p))) (fst p)"

definition run_lengths :: "int32 list \<Rightarrow> int list" where
  "run_lengths encodedData = map (\<lambda>p. sint (snd p)) (pairs encodedData)"

section \<open>Errors\<close>

text \<open>
  An error value is kept as the call that built it: \<^verbatim>\<open>errors.New(msg)\<close>, or
  \<^verbatim>\<open>fmt.Errorf(format, args...)\<close> with its format string and its arguments (strings, or
  errors for \<^verbatim>\<open>%v\<close> and \<^verbatim>\<open>%w\<close>). The errors that the theorems below tell apart differ as
  messages too, whatever their arguments: their format strings begin with different
  literal text.
\<close>

datatype error = errors_New string | fmt_Errorf string "arg list"
and arg = Str string | Err error

section \<open>Configuration snapshot\<close>

text \<open>
  Modelled from the spec: the declarations of \<^verbatim>\<open>cachedConfig\<close>, of the snapshot it points
  to and of the configuration messages, which are not in \<^verbatim>\<open>state.go\<close>. The specification
  gives a map from dashboard names to ordered lists of tabs, each with its name and its
  test group, and the two normalized indexes; the records hold these as the fields that
  \<^verbatim>\<open>findDashboardTab\<close> reads. A Go map is a partial function; a pointer that may be nil
  is an option.
\<close>

record DashboardTab =
  Tab_Name :: string
  Tab_TestGroupName :: string

record Dashboard =
  Dashboard_DashboardTab :: "DashboardTab list"

record snapshot_Config =
  Dashboards :: "string \<rightharpoonup> Dashboard"

record cachedConfig =
  Config :: "snapshot_Config option"
  NormalDashboard :: "string \<rightharpoonup> string"
  NormalDashboardTab :: "string \<rightharpoonup> (string \<rightharpoonup> string)"

section \<open>Grid state and responses\<close>

text \<open>
  Modelled from the spec: the grid messages \<^verbatim>\<open>Column\<close>, \<^verbatim>\<open>Row\<close> and \<^verbatim>\<open>Grid\<close> of the state
  package, whose declarations are not at hand, with the fields that \<^verbatim>\<open>state.go\<close> reads.
  The response messages are those of \<^verbatim>\<open>data.proto\<close>.

  \<^verbatim>\<open>Started\<close> is a float64 of milliseconds (it is the argument of \<^verbatim>\<open>math.Mod\<close>). A float64
  is a finite number, an infinity or a NaN. A finite float64 is given by its value, a
  real number of the form \<open>m * 2^e\<close> with \<open>\<bar>m\<bar> < 2^53\<close> and \<open>-1074 \<le> e \<le> 971\<close>. The two
  zeros are one value here: none of the conversions to an integer in \<^verbatim>\<open>state.go\<close> depends
  on the sign of a zero. The constructor \<open>Finite\<close> takes any real number; the values that
  a program holds are those that the rounding \<open>round64\<close>, defined below, leaves unchanged,
  and every result of an operation is rounded.
\<close>

datatype float64 = Finite real | PosInf | NegInf | NaN

type_synonym int64 = "64 word"

typedecl AlertInfo

record Column =
  Column_Name :: string
  Column_Build :: string
  Column_Started :: float64
  Column_Extra :: "string list"
  Column_HotlistIds :: string

record Row =
  Row_Name :: string
  Row_Results :: "int32 list"
  Row_CellIds :: "string list"
  Row_Messages :: "string list"
  Row_Icons :: "string list"
  Row_Issues :: "string list"
  Row_AlertInfo :: "AlertInfo option"

record Grid =
  Grid_Columns :: "Column list"
  Grid_Rows :: "Row list"

record Timestamp =
  Seconds :: int64
  Nanos :: int32

record ListHeadersResponse_Header =
  Header_Name :: string
  Header_Build :: string
  Header_Started :: Timestamp
  Header_Extra :: "string list"
  Header_HotlistIds :: string

record ListHeadersResponse =
  Headers :: "ListHeadersResponse_Header list"

record ListRowsResponse_Cell =
  Cell_Result :: int32
  Cell_CellId :: string
  Cell_Message :: string
  Cell_Icon :: string

record ListRowsResponse_Row =
  ResponseRow_Name :: string
  ResponseRow_Issues :: "string list"
  ResponseRow_Alert :: "AlertInfo option"
  ResponseRow_Cells :: "ListRowsResponse_Cell list"

record ListRowsResponse =
  Rows :: "ListRowsResponse_Row list"

text \<open>
  \<^verbatim>\<open>ListHeadersRequest\<close> and \<^verbatim>\<open>ListRowsRequest\<close> have the same three string fields,
  read through their getters.
\<close>

record Request =
  GetScope :: string
  GetDashboard :: string
  GetTab :: string

section \<open>Server and collaborators\<close>

record Server =
  GridPathPrefix :: string
  TabPathPrefix :: string

type_synonym gcs_Path = string

text \<open>
  The functions that \<^verbatim>\<open>state.go\<close> calls and that are defined elsewhere are parameters.
  A Go result pair \<^verbatim>\<open>(value, err)\<close> is a sum: \<open>Inl err\<close> when \<^verbatim>\<open>err != nil\<close> (every
  caller in \<^verbatim>\<open>state.go\<close> tests the error before it uses the value), \<open>Inr value\<close>
  otherwise. \<^verbatim>\<open>getConfig\<close> and \<^verbatim>\<open>DownloadGrid\<close> return pointers that may be nil.
  The context argument, its timeout and the read lock on the configuration do not
  change what is computed from the collaborators' answers, and are left out.

  The last two fields stand for the implementation of the language: when a float64 is
  converted to an integer type that cannot represent it, the conversion succeeds and Go
  leaves its result to the implementation.
\<close>

record collaborators =
  config_Normalize :: "string \<Rightarrow> string"
  getConfig :: "string \<Rightarrow> error + cachedConfig option"
  configPath :: "string \<Rightarrow> error + gcs_Path"
  ResolveReference :: "gcs_Path \<Rightarrow> string \<Rightarrow> error + gcs_Path"
  path_Join :: "string \<Rightarrow> string \<Rightarrow> string"
  tabulator_TabStatePath :: "gcs_Path \<Rightarrow> string \<Rightarrow> string \<Rightarrow> string \<Rightarrow> error + gcs_Path"
  gcs_DownloadGrid :: "gcs_Path \<Rightarrow> error + Grid option"
  int64_unrepresentable :: "float64 \<Rightarrow> int64"
  int32_unrepresentable :: "float64 \<Rightarrow> int32"

section \<open>findDashboardTab\<close>

text \<open>
  The scan of the dashboard's tabs, \<^verbatim>\<open>for _, tab := range ...DashboardTab\<close>, with the
  return that follows the loop.
\<close>

fun findDashboardTab_loop ::
  "DashboardTab list \<Rightarrow> string \<Rightarrow> string \<Rightarrow> string \<times> string \<times> string \<times> error option" where
  "findDashboardTab_loop [] dashboardName tabName =
     (dashboardName, tabName, '''', Some (fmt_Errorf ''Test group not found'' []))"
| "findDashboardTab_loop (tab # rest) dashboardName tabName =
     (if Tab_Name tab = tabName
      then (dashboardName, tabName, Tab_TestGroupName tab, None)
      else findDashboardTab_loop rest dashboardName tabName)"

text \<open>
  The four results are returned together, the error being \<open>None\<close> for \<^verbatim>\<open>nil\<close>. Reading a
  missing key of \<^verbatim>\<open>NormalDashboardTab\<close> gives the nil map, in which no key is found.
  \<^verbatim>\<open>Dashboards\<close> maps to pointers: for a missing key the field access
  \<^verbatim>\<open>.DashboardTab\<close> dereferences nil.
\<close>

definition findDashboardTab ::
  "collaborators \<Rightarrow> cachedConfig option \<Rightarrow> string \<Rightarrow> string
     \<Rightarrow> (string \<times> string \<times> string \<times> error option) outcome" where
  "findDashboardTab ext cfg dashboardInput tabInput =
     (case cfg of
        None \<Rightarrow> Return ('''', '''', '''', Some (errors_New ''empty config''))
      | Some c \<Rightarrow>
        (case Config c of
           None \<Rightarrow> Return ('''', '''', '''', Some (errors_New ''empty config''))
         | Some conf \<Rightarrow>
           (let dashboardKey = config_Normalize ext dashboardInput;
                tabKey = config_Normalize ext tabInput
            in case NormalDashboard c dashboardKey of
                 None \<Rightarrow>
                   Return ('''', '''', '''',
                           Some (fmt_Errorf ''Dashboard {%q} not found'' [Str dashboardKey]))
               | Some dashboardName \<Rightarrow>
                 (case (case NormalDashboardTab c dashboardKey of
                          None \<Rightarrow> None
                        | Some tabs \<Rightarrow> tabs tabKey) of
                    None \<Rightarrow>
                      Return (dashboardName, '''', '''',
                              Some (fmt_Errorf ''Tab {%q} not found'' [Str tabKey]))
                  | Some tabName \<Rightarrow>
                    (case Dashboards conf dashboardName of
                       None \<Rightarrow> Panic NilDereference
                     | Some dashboard \<Rightarrow>
                         Return (findDashboardTab_loop (Dashboard_DashboardTab dashboard)
                                   dashboardName tabName))))))"

section \<open>GroupGrid and Grid\<close>

definition GroupGrid :: "collaborators \<Rightarrow> Server \<Rightarrow> gcs_Path \<Rightarrow> string \<Rightarrow> error + Grid option" where
  "GroupGrid ext s configPath' groupName =
     (case ResolveReference ext configPath' (path_Join ext (GridPathPrefix s) groupName) of
        Inl err \<Rightarrow> Inl (fmt_Errorf ''resolve: %v'' [Err err])
      | Inr groupPath \<Rightarrow>
        (case gcs_DownloadGrid ext groupPath of
           Inl err \<Rightarrow> Inl (fmt_Errorf ''load: %w'' [Err err])
         | Inr grid \<Rightarrow> Inr grid))"

definition Grid ::
  "collaborators \<Rightarrow> Server \<Rightarrow> string \<Rightarrow> string \<Rightarrow> string \<Rightarrow> string \<Rightarrow> error + Grid option" where
  "Grid ext s scope dashboardName tabName testGroupNanme =
     (case configPath ext scope of
        Inl err \<Rightarrow> Inl err
      | Inr configPath' \<Rightarrow>
          if TabPathPrefix s = ''''
          then GroupGrid ext s configPath' testGroupNanme
          else (case tabulator_TabStatePath ext configPath' (TabPathPrefix s) dashboardName tabName of
                  Inl err \<Rightarrow> Inl (fmt_Errorf ''tab state path: %v'' [Err err])
                | Inr path \<Rightarrow> gcs_DownloadGrid ext path))"

section \<open>ListHeaders\<close>

subsection \<open>float64 arithmetic\<close>

text \<open>
  The result of an arithmetic operation on float64 is the exact result rounded to the
  nearest float64, a tie going to the neighbour whose last bit is even. \<open>round_half_even\<close>
  rounds a real number to an integer in this way.
\<close>

definition round_half_even :: "real \<Rightarrow> int" where
  "round_half_even y =
     (let f = \<lfloor>y\<rfloor>; d = y - of_int f
      in if d < 1 / 2 then f
         else if 1 / 2 < d then f + 1
         else if even f then f else f + 1)"

text \<open>
  Around a number \<open>x\<close> with \<open>2^e \<le> \<bar>x\<bar> < 2^(e+1)\<close> the float64 are the multiples of
  \<open>2^(e-52)\<close>, a significand of 53 bits; below \<open>2^-1022\<close> they are the multiples of
  \<open>2^-1074\<close>.
\<close>

definition float64_ulp :: "real \<Rightarrow> real" where
  "float64_ulp x = power_int 2 (max \<lfloor>log 2 \<bar>x\<bar>\<rfloor> (- 1022) - 52)"

text \<open>A rounded result of magnitude \<open>2^1024\<close> or more overflows to an infinity.\<close>

definition round64 :: "real \<Rightarrow> float64" where
  "round64 x =
     (if x = 0 then Finite 0
      else let u = float64_ulp x;
               r = of_int (round_half_even (x / u)) * u
           in if 2 ^ 1024 \<le> \<bar>r\<bar> then (if 0 < r then PosInf else NegInf) else Finite r)"

text \<open>
  The quotient \<^verbatim>\<open>x / c\<close> and the product \<^verbatim>\<open>x * c\<close> of a float64 and a positive constant,
  which is what \<^verbatim>\<open>millis / 1000\<close> and \<^verbatim>\<open>... * 1e6\<close> are.
\<close>

definition float64_div :: "float64 \<Rightarrow> real \<Rightarrow> float64" where
  "float64_div x c =
     (case x of Finite a \<Rightarrow> round64 (a / c) | PosInf \<Rightarrow> PosInf | NegInf \<Rightarrow> NegInf | NaN \<Rightarrow> NaN)"

definition float64_mul :: "float64 \<Rightarrow> real \<Rightarrow> float64" where
  "float64_mul x c =
     (case x of Finite a \<Rightarrow> round64 (a * c) | PosInf \<Rightarrow> PosInf | NegInf \<Rightarrow> NegInf | NaN \<Rightarrow> NaN)"

text \<open>
  The conversion of a float64 to an integer type drops the fraction (it rounds towards
  zero). When the integer type cannot represent the result, or the operand is an infinity
  or a NaN, the result is the implementation's.
\<close>

definition float64_trunc :: "real \<Rightarrow> int" where
  "float64_trunc x = (if 0 \<le> x then \<lfloor>x\<rfloor> else \<lceil>x\<rceil>)"

definition to_int64 :: "collaborators \<Rightarrow> float64 \<Rightarrow> int64" where
  "to_int64 ext x =
     (case x of
        Finite a \<Rightarrow>
          if - (2 ^ 63) \<le> float64_trunc a \<and> float64_trunc a < 2 ^ 63
          then word_of_int (float64_trunc a)
          else int64_unrepresentable ext x
      | _ \<Rightarrow> int64_unrepresentable ext x)"

definition to_int32 :: "collaborators \<Rightarrow> float64 \<Rightarrow> int32" where
  "to_int32 ext x =
     (case x of
        Finite a \<Rightarrow>
          if - (2 ^ 31) \<le> float64_trunc a \<and> float64_trunc a < 2 ^ 31
          then word_of_int (float64_trunc a)
          else int32_unrepresentable ext x
      | _ \<Rightarrow> int32_unrepresentable ext x)"

text \<open>
  \<^verbatim>\<open>math.Mod(x, y)\<close> is the floating-point remainder of \<^verbatim>\<open>x/y\<close>: its magnitude is less
  than that of \<^verbatim>\<open>y\<close> and its sign is that of \<^verbatim>\<open>x\<close>. For finite operands it is
  \<open>x - y * n\<close>, with \<open>n\<close> the exact quotient rounded towards zero, and this number is a
  float64: the remainder is not rounded. The remainder of an infinity or of a NaN is NaN.
  The function is called with the constant \<^verbatim>\<open>y = 1000\<close> only.
\<close>

definition math_Mod :: "float64 \<Rightarrow> real \<Rightarrow> float64" where
  "math_Mod x y =
     (case x of
        Finite a \<Rightarrow> if y = 0 then NaN else Finite (a - y * of_int (float64_trunc (a / y)))
      | _ \<Rightarrow> NaN)"

subsection \<open>The operation\<close>

text \<open>The loop over \<^verbatim>\<open>grid.Columns\<close>, appending one header for each column.\<close>

fun ListHeaders_loop ::
  "collaborators \<Rightarrow> Column list \<Rightarrow> ListHeadersResponse_Header list
     \<Rightarrow> ListHeadersResponse_Header list" where
  "ListHeaders_loop ext [] headers = headers"
| "ListHeaders_loop ext (gColumn # rest) headers =
     (let millis = Column_Started gColumn;
          sec = float64_div millis 1000;
          nanos = float64_mul (math_Mod millis 1000) 1000000;
          column = \<lparr>Header_Name = Column_Name gColumn,
                    Header_Build = Column_Build gColumn,
                    Header_Started = \<lparr>Seconds = to_int64 ext sec, Nanos = to_int32 ext nanos\<rparr>,
                    Header_Extra = Column_Extra gColumn,
                    Header_HotlistIds = Column_HotlistIds gColumn\<rparr>
      in ListHeaders_loop ext rest (headers @ [column]))"

text \<open>
  \<^verbatim>\<open>cfg.Mutex.RLock()\<close> dereferences \<^verbatim>\<open>cfg\<close>, so a nil configuration returned without an
  error panics there.
\<close>

definition ListHeaders ::
  "collaborators \<Rightarrow> Server \<Rightarrow> Request \<Rightarrow> (error + ListHeadersResponse) outcome" where
  "ListHeaders ext s req =
     (case getConfig ext (GetScope req) of
        Inl err \<Rightarrow> Return (Inl err)
      | Inr cfg \<Rightarrow>
        (case cfg of
           None \<Rightarrow> Panic NilDereference
         | Some c \<Rightarrow>
           (case findDashboardTab ext cfg (GetDashboard req) (GetTab req) of
              Panic p \<Rightarrow> Panic p
            | Return (dashboardName, tabName, testGroupName, err) \<Rightarrow>
              (case err of
                 Some e \<Rightarrow> Return (Inl e)
               | None \<Rightarrow>
                 (case Grid ext s (GetScope req) dashboardName tabName testGroupName of
                    Inl err' \<Rightarrow>
                      Return (Inl (fmt_Errorf ''Dashboard {%q} or tab {%q} not found''
                                     [Str (GetDashboard req), Str (GetTab req)]))
                  | Inr None \<Rightarrow> Return (Inl (errors_New ''grid not found''))
                  | Inr (Some grid) \<Rightarrow>
                      Return (Inr \<lparr>Headers = ListHeaders_loop ext (Grid_Columns grid) []\<rparr>))))))"

section \<open>ListRows\<close>

text \<open>
  The loop over the cells of one row,
  \<^verbatim>\<open>for cellIdx := 0; cellIdx < cellsCount; cellIdx++\<close>. Each of the four index
  expressions is bounds-checked.
\<close>

function ListRows_cells ::
  "Row \<Rightarrow> int32 list \<Rightarrow> nat \<Rightarrow> nat \<Rightarrow> ListRowsResponse_Cell list
     \<Rightarrow> ListRowsResponse_Cell list outcome" where
  "ListRows_cells gRow gRowDecodedResults cellsCount cellIdx cells =
     (if cellIdx < cellsCount
      then (if cellIdx < length gRowDecodedResults \<and> cellIdx < length (Row_CellIds gRow)
               \<and> cellIdx < length (Row_Messages gRow) \<and> cellIdx < length (Row_Icons gRow)
            then ListRows_cells gRow gRowDecodedResults cellsCount (cellIdx + 1)
                   (cells @ [\<lparr>Cell_Result = gRowDecodedResults ! cellIdx,
                              Cell_CellId = Row_CellIds gRow ! cellIdx,
                              Cell_Message = Row_Messages gRow ! cellIdx,
                              Cell_Icon = Row_Icons gRow ! cellIdx\<rparr>])
            else Panic IndexOutOfRange)
      else Return cells)"
  by pat_completeness auto
termination
  by (relation "measure (\<lambda>(gRow, dec, cellsCount, cellIdx, cells). cellsCount - cellIdx)") auto

declare ListRows_cells.simps [simp del]

text \<open>The body of the loop over \<^verbatim>\<open>grid.Rows\<close>, for one row.\<close>

definition ListRows_row :: "Row \<Rightarrow> ListRowsResponse_Row outcome" where
  "ListRows_row gRow =
     (let cellsCount = length (Row_CellIds gRow)
      in case decodeRLE (Row_Results gRow) of
           Panic p \<Rightarrow> Panic p
         | Return gRowDecodedResults \<Rightarrow>
           (case ListRows_cells gRow gRowDecodedResults cellsCount 0 [] of
              Panic p \<Rightarrow> Panic p
            | Return cells \<Rightarrow>
                Return \<lparr>ResponseRow_Name = Row_Name gRow,
                        ResponseRow_Issues = Row_Issues gRow,
                        ResponseRow_Alert = Row_AlertInfo gRow,
                        ResponseRow_Cells = cells\<rparr>))"

fun ListRows_loop ::
  "Row list \<Rightarrow> ListRowsResponse_Row list \<Rightarrow> ListRowsResponse_Row list outcome" where
  "ListRows_loop [] rows = Return rows"
| "ListRows_loop (gRow # rest) rows =
     (case ListRows_row gRow of
        Panic p \<Rightarrow> Panic p
      | Return row \<Rightarrow> ListRows_loop rest (rows @ [row]))"

definition ListRows ::
  "collaborators \<Rightarrow> Server \<Rightarrow> Request \<Rightarrow> (error + ListRowsResponse) outcome" where
  "ListRows ext s req =
     (case getConfig ext (GetScope req) of
        Inl err \<Rightarrow> Return (Inl err)
      | Inr cfg \<Rightarrow>
        (case cfg of
           None \<Rightarrow> Panic NilDereference
         | Some c \<Rightarrow>
           (case findDashboardTab ext cfg (GetDashboard req) (GetTab req) of
              Panic p \<Rightarrow> Panic p
            | Return (dashboardName, tabName, testGroupName, err) \<Rightarrow>
              (case err of
                 Some e \<Rightarrow> Return (Inl e)
               | None \<Rightarrow>
                 (case Grid ext s (GetScope req) dashboardName tabName testGroupName of
                    Inl err' \<Rightarrow>
                      Return (Inl (fmt_Errorf ''Dashboard {%q} or tab {%q} not found''
                                     [Str (GetDashboard req), Str (GetTab req)]))
                  | Inr None \<Rightarrow> Return (Inl (errors_New ''grid not found''))
                  | Inr (Some grid) \<Rightarrow>
                    (case ListRows_loop (Grid_Rows grid) [] of
                       Panic p \<Rightarrow> Panic p
                     | Return rows \<Rightarrow> Return (Inr \<lparr>Rows = rows\<rparr>)))))))"

section \<open>HTTP adapters\<close>

text \<open>
  What a handler writes: \<^verbatim>\<open>http.Error(w, err.Error(), code)\<close>, kept with the error
  whose message it sends, or the response as JSON.
\<close>

datatype 'a http_reply = http_Error error nat | writeJSON 'a

definition http_StatusNotFound :: nat where
  "http_StatusNotFound = 404"

definition ListHeadersHTTP ::
  "collaborators \<Rightarrow> Server \<Rightarrow> string \<Rightarrow> string \<Rightarrow> string \<Rightarrow> ListHeadersResponse http_reply outcome" where
  "ListHeadersHTTP ext s scope dashboard tab =
     (case ListHeaders ext s \<lparr>GetScope = scope, GetDashboard = dashboard, GetTab = tab\<rparr> of
        Panic p \<Rightarrow> Panic p
      | Return (Inl err) \<Rightarrow> Return (http_Error err http_StatusNotFound)
      | Return (Inr resp) \<Rightarrow> Return (writeJSON resp))"

definition ListRowsHTTP ::
  "collaborators \<Rightarrow> Server \<Rightarrow> string \<Rightarrow> string \<Rightarrow> string \<Rightarrow> ListRowsResponse http_reply outcome" where
  "ListRowsHTTP ext s scope dashboard tab =
     (case ListRows ext s \<lparr>GetScope = scope, GetDashboard = dashboard, GetTab = tab\<rparr> of
        Panic p \<Rightarrow> Panic p
      | Return (Inl err) \<Rightarrow> Return (http_Error err http_StatusNotFound)
      | Return (Inr resp) \<Rightarrow> Return (writeJSON resp))"

section \<open>Specification-side definitions\<close>

text \<open>
  The decoded sequence of the specification, \<open>decode(results)\<close>, is what \<open>decodeRLE\<close>
  returns.
\<close>

definition decode :: "int32 list \<Rightarrow> int32 list" where
  "decode encoded = (case decodeRLE encoded of Return decoded \<Rightarrow> decoded | Panic p \<Rightarrow> [])"

text \<open>
  The alignment invariant of a row, in the specification's words: the decoded results,
  the cell ids, the messages and the icons have the same length.
\<close>

definition aligned :: "Row \<Rightarrow> bool" where
  "aligned gRow =
     (length (decode (Row_Results gRow)) = length (Row_CellIds gRow)
      \<and> length (Row_CellIds gRow) = length (Row_Messages gRow)
      \<and> length (Row_Messages gRow) = length (Row_Icons gRow))"

text \<open>
  A row that the cell loop can index throughout: none of the other three sequences is
  shorter than the cell ids.
\<close>

definition covered :: "Row \<Rightarrow> bool" where
  "covered gRow =
     (length (Row_CellIds gRow) \<le> length (decode (Row_Results gRow))
      \<and> length (Row_CellIds gRow) \<le> length (Row_Messages gRow)
      \<and> length (Row_CellIds gRow) \<le> length (Row_Icons gRow))"

text \<open>
  The positional zip of the four sequences into cell records; it stops at the end of the
  shortest.
\<close>

definition zip_cells ::
  "int32 list \<Rightarrow> string list \<Rightarrow> string list \<Rightarrow> string list \<Rightarrow> ListRowsResponse_Cell list" where
  "zip_cells results cellIds messages icons =
     map (\<lambda>(r, c, m, i). \<lparr>Cell_Result = r, Cell_CellId = c, Cell_Message = m, Cell_Icon = i\<rparr>)
       (zip results (zip cellIds (zip messages icons)))"

definition row_record :: "Row \<Rightarrow> ListRowsResponse_Row" where
  "row_record gRow =
     \<lparr>ResponseRow_Name = Row_Name gRow,
      ResponseRow_Issues = Row_Issues gRow,
      ResponseRow_Alert = Row_AlertInfo gRow,
      ResponseRow_Cells =
        zip_cells (decode (Row_Results gRow))
          (Row_CellIds gRow) (Row_Messages gRow) (Row_Icons gRow)\<rparr>"

text \<open>
  Modelled from the spec: \<^verbatim>\<open>config.Normalize\<close>, whose source is not at hand. The
  specification describes it as case folding with white space trimmed and collapsed.
  The functions above take the normalization as a parameter; this one serves in the
  examples.
\<close>

definition lower_char :: "char \<Rightarrow> char" where
  "lower_char c =
     (case map_of (zip ''ABCDEFGHIJKLMNOPQRSTUVWXYZ'' ''abcdefghijklmnopqrstuvwxyz'') c of
        None \<Rightarrow> c
      | Some l \<Rightarrow> l)"

definition is_space :: "char \<Rightarrow> bool" where
  "is_space c = (c = CHR '' '' \<or> c = CHR 0x09 \<or> c = CHR 0x0A \<or> c = CHR 0x0D)"

fun fields :: "string \<Rightarrow> string \<Rightarrow> string list" where
  "fields w [] = (if w = [] then [] else [w])"
| "fields w (c # cs) =
     (if is_space c then (if w = [] then fields [] cs else w # fields [] cs)
      else fields (w @ [c]) cs)"

fun join_fields :: "string list \<Rightarrow> string" where
  "join_fields [] = []"
| "join_fields [w] = w"
| "join_fields (w # ws) = w @ '' '' @ join_fields ws"

definition spec_Normalize :: "string \<Rightarrow> string" where
  "spec_Normalize s = join_fields (fields [] (map lower_char s))"

section \<open>An example deployment\<close>

text \<open>
  One dashboard with one tab, backed by one test group, and a blob store given as a map
  from object paths to what a download returns there.
\<close>

definition example_snapshot :: snapshot_Config where
  "example_snapshot =
     \<lparr>Dashboards =
        [''My Dash'' \<mapsto> \<lparr>Dashboard_DashboardTab =
           [\<lparr>Tab_Name = ''Tab1'', Tab_TestGroupName = ''group1''\<rparr>]\<rparr>]\<rparr>"

definition example_config :: cachedConfig where
  "example_config =
     \<lparr>Config = Some example_snapshot,
      NormalDashboard = [''my dash'' \<mapsto> ''My Dash''],
      NormalDashboardTab = [''my dash'' \<mapsto> [''tab1'' \<mapsto> ''Tab1'']]\<rparr>"

text \<open>
  The same configuration with an index that still lists a tab, \<open>Gone\<close>, which the
  dashboard no longer has.
\<close>

definition stale_config :: cachedConfig where
  "stale_config =
     example_config
       \<lparr>NormalDashboardTab := [''my dash'' \<mapsto> [''tab1'' \<mapsto> ''Tab1'', ''gone'' \<mapsto> ''Gone'']]\<rparr>"

definition example_collaborators :: "(gcs_Path \<Rightarrow> error + Grid option) \<Rightarrow> collaborators" where
  "example_collaborators download =
     \<lparr>config_Normalize = spec_Normalize,
      getConfig = (\<lambda>scope. Inr (Some example_config)),
      configPath = (\<lambda>scope. Inr ''gs://bucket/config''),
      ResolveReference = (\<lambda>base ref. Inr (''gs://bucket/'' @ ref)),
      path_Join = (\<lambda>a b. a @ ''/'' @ b),
      tabulator_TabStatePath =
        (\<lambda>base prefix dashboard tab. Inr (''gs://bucket/'' @ prefix @ ''/'' @ dashboard @ ''/'' @ tab)),
      gcs_DownloadGrid = download,
      int64_unrepresentable = (\<lambda>x. - (2 ^ 63)),
      int32_unrepresentable = (\<lambda>x. - (2 ^ 31))\<rparr>"

text \<open>
  The implementation of the example answers a conversion that it cannot represent with
  the least value of the integer type.
\<close>

text \<open>
  Three stores: one that holds a grid at one path and nothing elsewhere, one whose reads
  all fail, and one that answers without an error and without a grid.
\<close>

definition example_store :: "gcs_Path \<Rightarrow> Grid \<Rightarrow> gcs_Path \<Rightarrow> error + Grid option" where
  "example_store path grid p =
     (if p = path then Inr (Some grid) else Inl (errors_New ''object does not exist''))"

definition failing_store :: "gcs_Path \<Rightarrow> error + Grid option" where
  "failing_store p = Inl (errors_New ''connection reset by peer'')"

definition nil_store :: "gcs_Path \<Rightarrow> error + Grid option" where
  "nil_store p = Inr None"

definition group_path :: gcs_Path where
  "group_path = ''gs://bucket/grid/group1''"

definition tab_path :: gcs_Path where
  "tab_path = ''gs://bucket/tabs/My Dash/Tab1''"

definition group_server :: Server where
  "group_server = \<lparr>GridPathPrefix = ''grid'', TabPathPrefix = ''''\<rparr>"

definition tab_server :: Server where
  "tab_server = \<lparr>GridPathPrefix = ''grid'', TabPathPrefix = ''tabs''\<rparr>"

definition example_column :: "float64 \<Rightarrow> Column" where
  "example_column started =
     \<lparr>Column_Name = ''c1'', Column_Build = ''b1'', Column_Started = started,
      Column_Extra = [], Column_HotlistIds = ''''\<rparr>"

definition example_row :: "int32 list \<Rightarrow> string list \<Rightarrow> string list \<Rightarrow> string list \<Rightarrow> Row" where
  "example_row results cellIds messages icons =
     \<lparr>Row_Name = ''test'', Row_Results = results, Row_CellIds = cellIds,
      Row_Messages = messages, Row_Icons = icons, Row_Issues = [], Row_AlertInfo = None\<rparr>"

text \<open>The grid of the specification's examples: one column and one row of two cells.\<close>

definition example_grid :: Grid where
  "example_grid =
     \<lparr>Grid_Columns = [example_column (Finite 1500)],
      Grid_Rows = [example_row [1, 2] [''a'', ''b''] [''m1'', ''m2''] [''i1'', ''i2'']]\<rparr>"

section \<open>The example deployment, evaluated\<close>

lemmas example_defs =
  example_snapshot_def example_config_def stale_config_def example_collaborators_def group_server_def tab_server_def
  example_column_def example_row_def example_store_def failing_store_def nil_store_def
  group_path_def tab_path_def example_grid_def
  spec_Normalize_def lower_char_def is_space_def

lemma example_identity:
  "findDashboardTab (example_collaborators download) (Some example_config) ''My Dash'' ''Tab1''
     = Return (''My Dash'', ''Tab1'', ''group1'', None)"
  by (simp add: findDashboardTab_def example_collaborators_def example_config_def
      example_snapshot_def spec_Normalize_def lower_char_def is_space_def)

lemma example_getConfig:
  "getConfig (example_collaborators download) scope = Inr (Some example_config)"
  by (simp add: example_collaborators_def)

lemma example_Grid_group:
  "Grid (example_collaborators download) group_server scope dn tn ''group1'' =
     (case download group_path of
        Inl err \<Rightarrow> Inl (fmt_Errorf ''load: %w'' [Err err])
      | Inr grid \<Rightarrow> Inr grid)"
  by (simp add: Grid_def GroupGrid_def example_collaborators_def group_server_def group_path_def)

section \<open>Properties of decodeRLE\<close>

lemma sint_pred: "0 <s (c :: int32) \<Longrightarrow> sint (c - 1) = sint c - 1"
proof -
  assume pos: "0 <s c"
  have up: "sint c < 2 ^ 31"
    using sint_lt [of c] by simp
  from pos have lo: "0 < sint c"
    by (simp add: word_sless_alt)
  have "sint (c - 1) = signed_take_bit 31 (sint c - 1)"
    by (simp add: sint_word_ariths)
  also have "\<dots> = sint c - 1"
    using lo up by (simp add: signed_take_bit_int_eq_self)
  finally show ?thesis .
qed

lemma repeat_loop_replicate:
  "repeat_loop v c acc = acc @ replicate (nat (sint c)) v"
proof (induction v c acc rule: repeat_loop.induct)
  case (1 v c acc)
  show ?case
  proof (cases "0 <s c")
    case True
    then have lo: "0 < sint c" by (simp add: word_sless_alt)
    have "nat (sint c) = Suc (nat (sint c - 1))" using lo by simp
    then have "replicate (nat (sint c)) v = v # replicate (nat (sint (c - 1))) v"
      by (simp add: sint_pred [OF True])
    with True "1.IH" show ?thesis
      by (subst repeat_loop.simps) simp
  next
    case False
    then have "sint c \<le> 0" by (simp add: word_sless_alt)
    with False show ?thesis
      by (subst repeat_loop.simps) simp
  qed
qed

lemma expand_pair: "expand (v, n) = replicate (nat (sint n)) v"
  by (simp add: expand_def)

lemma decode_loop_pairs:
  "idx \<le> length enc \<Longrightarrow> even (length enc - idx) \<Longrightarrow>
   decode_loop enc idx acc = Return (acc @ concat (map expand (pairs (drop idx enc))))"
proof (induction enc idx acc rule: decode_loop.induct)
  case (1 enc idx acc)
  show ?case
  proof (cases "idx < length enc")
    case False
    with "1.prems" show ?thesis
      by (subst decode_loop.simps) simp
  next
    case True
    with "1.prems" have two: "idx + 1 < length enc"
      by (cases "length enc - idx = 1") auto
    then have d: "drop idx enc = enc ! idx # enc ! (idx + 1) # drop (idx + 2) enc"
      by (metis Cons_nth_drop_Suc Suc_eq_plus1 True add_2_eq_Suc')
    from two "1.prems" have "idx + 2 \<le> length enc" "even (length enc - (idx + 2))"
      by auto
    with "1.IH" [OF True two] True two show ?thesis
      by (subst decode_loop.simps) (simp add: d repeat_loop_replicate expand_pair)
  qed
qed

lemma decodeRLE_pairs:
  "decodeRLE enc = Return (if even (length enc) then concat (map expand (pairs enc)) else [])"
  using decode_loop_pairs [of 0 enc "[]"]
  by (simp add: decodeRLE_def even_iff_mod_2_eq_zero)

lemma length_concat_expand:
  "\<forall>n \<in> set (run_lengths enc). 0 \<le> n \<Longrightarrow>
   int (length (concat (map expand (pairs enc)))) = sum_list (run_lengths enc)"
  by (induction enc rule: pairs.induct) (simp_all add: run_lengths_def expand_def)

lemma pairs_append:
  "even (length xs) \<Longrightarrow> pairs (xs @ ys) = pairs xs @ pairs ys"
  by (induction xs rule: pairs.induct) simp_all

lemma expand_lambda: "(\<lambda>(v, n). replicate (nat (sint n)) v) = expand"
  by (auto simp: expand_def fun_eq_iff)

text \<open>
  C1, as the code has it. For every even-length sequence of (value, runLength) pairs whose
  run lengths are all non-negative, \<open>decodeRLE\<close> returns the concatenation, in pair order,
  of each value repeated its run length, the length of the output is the sum of the run
  lengths, and a pair with run length zero can be removed from the input without
  changing the output.
\<close>

theorem decodeRLE_non_negative_runs:
  assumes "even (length enc)" and "\<forall>n \<in> set (run_lengths enc). 0 \<le> n"
  shows "\<exists>out. decodeRLE enc = Return out
           \<and> out = concat (map (\<lambda>(v, n). replicate (nat (sint n)) v) (pairs enc))
           \<and> int (length out) = sum_list (run_lengths enc)
           \<and> (\<forall>xs v ys. enc = xs @ [v, 0] @ ys \<and> even (length xs)
                 \<longrightarrow> decodeRLE (xs @ ys) = Return out)"
proof -
  let ?out = "concat (map expand (pairs enc))"
  have ret: "decodeRLE enc = Return ?out"
    using assms(1) by (simp add: decodeRLE_pairs)
  have len: "int (length ?out) = sum_list (run_lengths enc)"
    using assms(2) by (rule length_concat_expand)
  have zero: "decodeRLE (xs @ ys) = Return ?out"
    if "enc = xs @ [v, 0] @ ys" and "even (length xs)" for xs v ys
  proof -
    from that assms(1) have "even (length ys)" by simp
    with that show ?thesis
      by (simp add: decodeRLE_pairs pairs_append expand_pair)
  qed
  from ret len zero show ?thesis
    by (simp add: expand_lambda)
qed

text \<open>The example of the specification, \<open>[0, 3, 5, 4]\<close>, through the theorem.\<close>

theorem decodeRLE_non_negative_runs_witness:
  "even (length [0, 3, 5, 4 :: int32]) \<and> run_lengths [0, 3, 5, 4] = [3, 4]
   \<and> decodeRLE [0, 3, 5, 4] = Return [0, 0, 0, 5, 5, 5, 5]"
proof -
  have h1: "even (length [0, 3, 5, 4 :: int32])" by simp
  have h2: "\<forall>n \<in> set (run_lengths [0, 3, 5, 4]). 0 \<le> n"
    by (simp add: run_lengths_def)
  from decodeRLE_non_negative_runs [OF h1 h2]
  have "decodeRLE [0, 3, 5, 4]
          = Return (concat (map (\<lambda>(v, n). replicate (nat (sint n)) v) (pairs [0, 3, 5, 4])))"
    by blast
  then have "decodeRLE [0, 3, 5, 4] = Return [0, 0, 0, 5, 5, 5, 5]"
    by (simp add: eval_nat_numeral)
  with h1 show ?thesis
    by (simp add: run_lengths_def)
qed

text \<open>
  C1, as it is stated, fails on a negative run length: \<open>[0, -1]\<close> decodes to the empty
  sequence, of length 0, while its run lengths sum to -1.
\<close>

theorem decodeRLE_length_counterexample:
  "even (length [0, -1 :: int32]) \<and> decodeRLE [0, -1] = Return []
   \<and> sum_list (run_lengths [0, -1]) = -1"
  by (simp add: decodeRLE_pairs expand_pair run_lengths_def)

text \<open>
  C8, as the code has it. For every odd-length input \<open>decodeRLE\<close> returns the empty
  sequence: no prefix of the input is decoded. Nothing is signalled: the result is the
  value returned for the empty input.
\<close>

theorem decodeRLE_odd_length:
  assumes "odd (length enc)"
  shows "decodeRLE enc = Return [] \<and> decodeRLE enc = decodeRLE []"
  using assms by (simp add: decodeRLE_pairs)

theorem decodeRLE_odd_length_witness:
  "odd (length [7, 2, 9 :: int32]) \<and> decodeRLE [7, 2, 9] = Return []
   \<and> decodeRLE [7, 2, 9] = decodeRLE []"
proof -
  have h: "odd (length [7, 2, 9 :: int32])" by simp
  from decodeRLE_odd_length [OF h] h show ?thesis by blast
qed

text \<open>
  C8, as it is stated, fails: on the odd-length input \<open>[7]\<close> the function returns
  normally, with the same value as on the well-formed empty input, so the caller cannot
  tell that the input was malformed.
\<close>

theorem decodeRLE_no_signal_counterexample:
  "odd (length [7 :: int32]) \<and> decodeRLE [7] = Return [] \<and> decodeRLE [7] = decodeRLE []"
  by (simp add: decodeRLE_pairs)

text \<open>
  C10. \<open>decodeRLE\<close> is a total function (both of its loops terminate) and it never
  panics: for every input it returns, on an even length, the concatenation over the pairs
  of the value repeated \<open>max runLength 0\<close> times, so that a negative run length
  contributes nothing.
\<close>

theorem decodeRLE_total:
  "decodeRLE enc =
     Return (if even (length enc)
             then concat (map (\<lambda>(v, n). replicate (nat (max (sint n) 0)) v) (pairs enc))
             else [])"
proof -
  have "(\<lambda>(v, n :: int32). replicate (nat (max (sint n) 0)) v) = expand"
    by (auto simp: expand_def fun_eq_iff max_def)
  then show ?thesis
    by (simp add: decodeRLE_pairs)
qed

theorem decodeRLE_total_witness:
  "decodeRLE [7, -2, 5, 4] = Return [5, 5, 5, 5]"
proof -
  have "decodeRLE [7, -2, 5, 4]
          = Return (concat (map (\<lambda>(v, n). replicate (nat (max (sint n) 0)) v)
                              (pairs [7, -2, 5, 4])))"
    using decodeRLE_total [of "[7, -2, 5, 4]"] by simp
  then show ?thesis
    by (simp add: eval_nat_numeral)
qed

section \<open>Properties of findDashboardTab\<close>

lemma findDashboardTab_loop_absent:
  "\<forall>tab \<in> set tabs. Tab_Name tab \<noteq> tn \<Longrightarrow>
   findDashboardTab_loop tabs dn tn = (dn, tn, '''', Some (fmt_Errorf ''Test group not found'' []))"
  by (induction tabs) simp_all

lemma findDashboardTab_loop_error:
  "findDashboardTab_loop tabs dn tn = (a, b, g, Some e) \<Longrightarrow>
   (\<forall>tab \<in> set tabs. Tab_Name tab \<noteq> tn) \<and> a = dn \<and> b = tn \<and> g = ''''
     \<and> e = fmt_Errorf ''Test group not found'' []"
  by (induction tabs) (auto split: if_splits)

lemma tab_lookup_bind:
  "(case m of None \<Rightarrow> None | Some tabs \<Rightarrow> tabs k) = Option.bind m (\<lambda>tabs. tabs k)"
  by (cases m) simp_all

text \<open>
  C4. With a configuration snapshot at hand, \<open>findDashboardTab\<close> fails in three tiers.
  When the normalized dashboard key is absent, the error is the dashboard error and the
  three names are empty. When the dashboard is found and the normalized tab key is absent,
  the error is the tab error, the dashboard name is returned and the tab and test group
  are empty. When both are found and no tab of the dashboard's list has the canonical tab
  name, the error is the test-group error, dashboard and tab are returned and the test
  group is empty. Every error that the function returns with such a snapshot is one of
  these three, under the condition of its tier, and the three errors are pairwise
  different.
\<close>

theorem findDashboardTab_tiers:
  assumes "Config c = Some conf"
  shows
    "(NormalDashboard c (config_Normalize ext d) = None \<longrightarrow>
        findDashboardTab ext (Some c) d t =
          Return ('''', '''', '''',
                  Some (fmt_Errorf ''Dashboard {%q} not found'' [Str (config_Normalize ext d)])))
     \<and> (\<forall>dn. NormalDashboard c (config_Normalize ext d) = Some dn
              \<and> Option.bind (NormalDashboardTab c (config_Normalize ext d))
                    (\<lambda>tabs. tabs (config_Normalize ext t)) = None \<longrightarrow>
        findDashboardTab ext (Some c) d t =
          Return (dn, '''', '''',
                  Some (fmt_Errorf ''Tab {%q} not found'' [Str (config_Normalize ext t)])))
     \<and> (\<forall>dn tn dashboard. NormalDashboard c (config_Normalize ext d) = Some dn
              \<and> Option.bind (NormalDashboardTab c (config_Normalize ext d))
                    (\<lambda>tabs. tabs (config_Normalize ext t)) = Some tn
              \<and> Dashboards conf dn = Some dashboard
              \<and> (\<forall>tab \<in> set (Dashboard_DashboardTab dashboard). Tab_Name tab \<noteq> tn) \<longrightarrow>
        findDashboardTab ext (Some c) d t =
          Return (dn, tn, '''', Some (fmt_Errorf ''Test group not found'' [])))
     \<and> (\<forall>a b g e. findDashboardTab ext (Some c) d t = Return (a, b, g, Some e) \<longrightarrow>
          (NormalDashboard c (config_Normalize ext d) = None
             \<and> e = fmt_Errorf ''Dashboard {%q} not found'' [Str (config_Normalize ext d)]
             \<and> a = '''' \<and> b = '''' \<and> g = '''')
          \<or> (NormalDashboard c (config_Normalize ext d) = Some a
             \<and> Option.bind (NormalDashboardTab c (config_Normalize ext d))
                    (\<lambda>tabs. tabs (config_Normalize ext t)) = None
             \<and> e = fmt_Errorf ''Tab {%q} not found'' [Str (config_Normalize ext t)]
             \<and> b = '''' \<and> g = '''')
          \<or> (NormalDashboard c (config_Normalize ext d) = Some a
             \<and> Option.bind (NormalDashboardTab c (config_Normalize ext d))
                    (\<lambda>tabs. tabs (config_Normalize ext t)) = Some b
             \<and> (\<exists>dashboard. Dashboards conf a = Some dashboard
                    \<and> (\<forall>tab \<in> set (Dashboard_DashboardTab dashboard). Tab_Name tab \<noteq> b))
             \<and> e = fmt_Errorf ''Test group not found'' []
             \<and> g = ''''))
     \<and> fmt_Errorf ''Dashboard {%q} not found'' [Str k1] \<noteq> fmt_Errorf ''Tab {%q} not found'' [Str k2]
     \<and> fmt_Errorf ''Dashboard {%q} not found'' [Str k1] \<noteq> fmt_Errorf ''Test group not found'' []
     \<and> fmt_Errorf ''Tab {%q} not found'' [Str k2] \<noteq> fmt_Errorf ''Test group not found'' []"
proof -
  let ?dk = "config_Normalize ext d" and ?tk = "config_Normalize ext t"
  have tier1: "findDashboardTab ext (Some c) d t =
      Return ('''', '''', '''', Some (fmt_Errorf ''Dashboard {%q} not found'' [Str ?dk]))"
    if "NormalDashboard c ?dk = None"
    using that assms by (simp add: findDashboardTab_def)
  have tier2: "findDashboardTab ext (Some c) d t =
      Return (dn, '''', '''', Some (fmt_Errorf ''Tab {%q} not found'' [Str ?tk]))"
    if "NormalDashboard c ?dk = Some dn"
      and "Option.bind (NormalDashboardTab c ?dk) (\<lambda>tabs. tabs ?tk) = None" for dn
    using that assms by (simp add: findDashboardTab_def tab_lookup_bind)
  have tier3: "findDashboardTab ext (Some c) d t =
      Return (dn, tn, '''', Some (fmt_Errorf ''Test group not found'' []))"
    if "NormalDashboard c ?dk = Some dn"
      and "Option.bind (NormalDashboardTab c ?dk) (\<lambda>tabs. tabs ?tk) = Some tn"
      and "Dashboards conf dn = Some dashboard"
      and "\<forall>tab \<in> set (Dashboard_DashboardTab dashboard). Tab_Name tab \<noteq> tn" for dn tn dashboard
    using that assms
    by (simp add: findDashboardTab_def tab_lookup_bind findDashboardTab_loop_absent)
  have conv: "(NormalDashboard c ?dk = None
             \<and> e = fmt_Errorf ''Dashboard {%q} not found'' [Str ?dk]
             \<and> a = '''' \<and> b = '''' \<and> g = '''')
          \<or> (NormalDashboard c ?dk = Some a
             \<and> Option.bind (NormalDashboardTab c ?dk) (\<lambda>tabs. tabs ?tk) = None
             \<and> e = fmt_Errorf ''Tab {%q} not found'' [Str ?tk]
             \<and> b = '''' \<and> g = '''')
          \<or> (NormalDashboard c ?dk = Some a
             \<and> Option.bind (NormalDashboardTab c ?dk) (\<lambda>tabs. tabs ?tk) = Some b
             \<and> (\<exists>dashboard. Dashboards conf a = Some dashboard
                    \<and> (\<forall>tab \<in> set (Dashboard_DashboardTab dashboard). Tab_Name tab \<noteq> b))
             \<and> e = fmt_Errorf ''Test group not found'' []
             \<and> g = '''')"
    if r: "findDashboardTab ext (Some c) d t = Return (a, b, g, Some e)" for a b g e
  proof (cases "NormalDashboard c ?dk")
    case None
    with r tier1 show ?thesis by simp
  next
    case (Some dn)
    show ?thesis
    proof (cases "Option.bind (NormalDashboardTab c ?dk) (\<lambda>tabs. tabs ?tk)")
      case None
      with r Some tier2 [OF Some] show ?thesis by simp
    next
      case tab: (Some tn)
      show ?thesis
      proof (cases "Dashboards conf dn")
        case None
        with r Some tab assms show ?thesis
          by (simp add: findDashboardTab_def tab_lookup_bind)
      next
        case dash: (Some dashboard)
        from r Some tab dash assms
        have "findDashboardTab_loop (Dashboard_DashboardTab dashboard) dn tn = (a, b, g, Some e)"
          by (simp add: findDashboardTab_def tab_lookup_bind)
        from findDashboardTab_loop_error [OF this] Some tab dash show ?thesis
          by simp
      qed
    qed
  qed
  from tier1 tier2 tier3 conv show ?thesis
    by simp
qed

text \<open>One request for each tier, through the theorem.\<close>

theorem findDashboardTab_tiers_witness:
  "findDashboardTab (example_collaborators failing_store) (Some example_config) ''Nope'' ''Tab1'' =
     Return ('''', '''', '''', Some (fmt_Errorf ''Dashboard {%q} not found'' [Str ''nope'']))
   \<and> findDashboardTab (example_collaborators failing_store) (Some example_config) ''My Dash'' ''Other'' =
     Return (''My Dash'', '''', '''', Some (fmt_Errorf ''Tab {%q} not found'' [Str ''other'']))
   \<and> findDashboardTab (example_collaborators failing_store) (Some stale_config) ''My Dash'' ''Gone'' =
     Return (''My Dash'', ''Gone'', '''', Some (fmt_Errorf ''Test group not found'' []))"
proof -
  let ?ext = "example_collaborators failing_store"
  have c: "Config example_config = Some example_snapshot"
    by (simp add: example_config_def)
  have c': "Config stale_config = Some example_snapshot"
    by (simp add: example_config_def stale_config_def)
  have n1: "config_Normalize ?ext ''Nope'' = ''nope''"
    by (simp add: example_defs)
  have n2: "config_Normalize ?ext ''My Dash'' = ''my dash''"
    by (simp add: example_defs)
  have n3: "config_Normalize ?ext ''Other'' = ''other''"
    by (simp add: example_defs)
  have n4: "config_Normalize ?ext ''Gone'' = ''gone''"
    by (simp add: example_defs)
  have a1: "NormalDashboard example_config (config_Normalize ?ext ''Nope'') = None"
    unfolding n1 by (simp add: example_config_def)
  have "findDashboardTab ?ext (Some example_config) ''Nope'' ''Tab1'' =
     Return ('''', '''', '''',
             Some (fmt_Errorf ''Dashboard {%q} not found'' [Str (config_Normalize ?ext ''Nope'')]))"
    by (rule findDashboardTab_tiers [OF c, of ?ext "''Nope''" "''Tab1''",
          THEN conjunct1, THEN mp, OF a1])
  then have one: "findDashboardTab ?ext (Some example_config) ''Nope'' ''Tab1'' =
     Return ('''', '''', '''', Some (fmt_Errorf ''Dashboard {%q} not found'' [Str ''nope'']))"
    unfolding n1 .
  have b1: "NormalDashboard example_config (config_Normalize ?ext ''My Dash'') = Some ''My Dash''"
    unfolding n2 by (simp add: example_config_def)
  have b2: "Option.bind (NormalDashboardTab example_config (config_Normalize ?ext ''My Dash''))
              (\<lambda>tabs. tabs (config_Normalize ?ext ''Other'')) = None"
    unfolding n2 n3 by (simp add: example_config_def)
  have "findDashboardTab ?ext (Some example_config) ''My Dash'' ''Other'' =
     Return (''My Dash'', '''', '''',
             Some (fmt_Errorf ''Tab {%q} not found'' [Str (config_Normalize ?ext ''Other'')]))"
    by (rule findDashboardTab_tiers [OF c, of ?ext "''My Dash''" "''Other''",
          THEN conjunct2, THEN conjunct1, THEN spec, THEN mp, OF conjI [OF b1 b2]])
  then have two: "findDashboardTab ?ext (Some example_config) ''My Dash'' ''Other'' =
     Return (''My Dash'', '''', '''', Some (fmt_Errorf ''Tab {%q} not found'' [Str ''other'']))"
    unfolding n3 .
  have c1: "NormalDashboard stale_config (config_Normalize ?ext ''My Dash'') = Some ''My Dash''"
    unfolding n2 by (simp add: example_config_def stale_config_def)
  have c2: "Option.bind (NormalDashboardTab stale_config (config_Normalize ?ext ''My Dash''))
              (\<lambda>tabs. tabs (config_Normalize ?ext ''Gone'')) = Some ''Gone''"
    unfolding n2 n4 by (simp add: example_config_def stale_config_def)
  have c3: "Dashboards example_snapshot ''My Dash'' =
              Some \<lparr>Dashboard_DashboardTab = [\<lparr>Tab_Name = ''Tab1'', Tab_TestGroupName = ''group1''\<rparr>]\<rparr>"
    by (simp add: example_snapshot_def)
  have c4: "\<forall>tab \<in> set (Dashboard_DashboardTab
                \<lparr>Dashboard_DashboardTab = [\<lparr>Tab_Name = ''Tab1'', Tab_TestGroupName = ''group1''\<rparr>]\<rparr>).
              Tab_Name tab \<noteq> ''Gone''"
    by simp
  have three: "findDashboardTab ?ext (Some stale_config) ''My Dash'' ''Gone'' =
     Return (''My Dash'', ''Gone'', '''', Some (fmt_Errorf ''Test group not found'' []))"
    by (rule findDashboardTab_tiers [OF c', of ?ext "''My Dash''" "''Gone''",
          THEN conjunct2, THEN conjunct2, THEN conjunct1, THEN spec, THEN spec, THEN spec,
          THEN mp, OF conjI [OF c1 conjI [OF c2 conjI [OF c3 c4]]]])
  from one two three show ?thesis
    by (intro conjI)
qed

text \<open>
  C5. The result of \<open>findDashboardTab\<close> depends on its two string inputs only through
  their normalized forms: two (dashboard, tab) pairs with the same normalized keys give
  the same result, identity or failure, whatever the normalization function is.
\<close>

theorem findDashboardTab_normalized_inputs:
  assumes "config_Normalize ext d1 = config_Normalize ext d2"
    and "config_Normalize ext t1 = config_Normalize ext t2"
  shows "findDashboardTab ext cfg d1 t1 = findDashboardTab ext cfg d2 t2"
  unfolding findDashboardTab_def assms by (rule refl)

theorem findDashboardTab_normalized_inputs_witness:
  "spec_Normalize ''My Dash'' = spec_Normalize ''  my   dash  ''
   \<and> spec_Normalize ''Tab1'' = spec_Normalize ''tab1''
   \<and> findDashboardTab (example_collaborators failing_store) (Some example_config) ''My Dash'' ''Tab1''
       = findDashboardTab (example_collaborators failing_store) (Some example_config) ''  my   dash  '' ''tab1''
   \<and> findDashboardTab (example_collaborators failing_store) (Some example_config) ''  my   dash  '' ''tab1''
       = Return (''My Dash'', ''Tab1'', ''group1'', None)"
proof -
  let ?ext = "example_collaborators failing_store"
  have d: "config_Normalize ?ext ''My Dash'' = config_Normalize ?ext ''  my   dash  ''"
    by (simp add: example_defs)
  have t: "config_Normalize ?ext ''Tab1'' = config_Normalize ?ext ''tab1''"
    by (simp add: example_defs)
  have r: "findDashboardTab ?ext (Some example_config) ''  my   dash  '' ''tab1''
       = Return (''My Dash'', ''Tab1'', ''group1'', None)"
    by (simp add: findDashboardTab_def example_defs)
  from findDashboardTab_normalized_inputs [OF d t, of "Some example_config"] d t r
  show ?thesis
    by (simp add: example_collaborators_def)
qed

section \<open>Properties of Grid\<close>

text \<open>
  C6. When the tab path prefix is empty, \<open>Grid\<close> downloads from the test-group path, the
  base location resolved against the join of the grid path prefix and the test group
  name, and neither the tab path resolver nor the dashboard and tab names have any part
  in the result. When the prefix is configured, it downloads from the path that the tab
  path resolver gives for the prefix, the dashboard name and the tab name, and the
  test-group resolution has no part in the result.
\<close>

theorem Grid_path_selection:
  assumes "configPath ext scope = Inr base"
  shows
    "(TabPathPrefix s = '''' \<longrightarrow>
        (\<forall>p. ResolveReference ext base (path_Join ext (GridPathPrefix s) g) = Inr p \<longrightarrow>
           Grid ext s scope d t g =
             (case gcs_DownloadGrid ext p of
                Inl err \<Rightarrow> Inl (fmt_Errorf ''load: %w'' [Err err])
              | Inr grid \<Rightarrow> Inr grid))
        \<and> (\<forall>e. ResolveReference ext base (path_Join ext (GridPathPrefix s) g) = Inl e \<longrightarrow>
           Grid ext s scope d t g = Inl (fmt_Errorf ''resolve: %v'' [Err e]))
        \<and> Grid (ext\<lparr>tabulator_TabStatePath := f\<rparr>) s scope d' t' g = Grid ext s scope d t g)
     \<and> (TabPathPrefix s \<noteq> '''' \<longrightarrow>
        (\<forall>p. tabulator_TabStatePath ext base (TabPathPrefix s) d t = Inr p \<longrightarrow>
           Grid ext s scope d t g = gcs_DownloadGrid ext p)
        \<and> (\<forall>e. tabulator_TabStatePath ext base (TabPathPrefix s) d t = Inl e \<longrightarrow>
           Grid ext s scope d t g = Inl (fmt_Errorf ''tab state path: %v'' [Err e]))
        \<and> Grid (ext\<lparr>ResolveReference := r, path_Join := j\<rparr>) (s\<lparr>GridPathPrefix := q\<rparr>)
              scope d t g' = Grid ext s scope d t g)"
proof (intro conjI impI allI)
  fix p
  assume "TabPathPrefix s = ''''"
    and "ResolveReference ext base (path_Join ext (GridPathPrefix s) g) = Inr p"
  with assms show "Grid ext s scope d t g =
      (case gcs_DownloadGrid ext p of
         Inl err \<Rightarrow> Inl (fmt_Errorf ''load: %w'' [Err err])
       | Inr grid \<Rightarrow> Inr grid)"
    by (simp add: Grid_def GroupGrid_def)
next
  fix e
  assume "TabPathPrefix s = ''''"
    and "ResolveReference ext base (path_Join ext (GridPathPrefix s) g) = Inl e"
  with assms show "Grid ext s scope d t g = Inl (fmt_Errorf ''resolve: %v'' [Err e])"
    by (simp add: Grid_def GroupGrid_def)
next
  assume "TabPathPrefix s = ''''"
  with assms
  show "Grid (ext\<lparr>tabulator_TabStatePath := f\<rparr>) s scope d' t' g = Grid ext s scope d t g"
    by (simp add: Grid_def GroupGrid_def split: sum.splits)
next
  fix p
  assume "TabPathPrefix s \<noteq> ''''"
    and "tabulator_TabStatePath ext base (TabPathPrefix s) d t = Inr p"
  with assms show "Grid ext s scope d t g = gcs_DownloadGrid ext p"
    by (simp add: Grid_def)
next
  fix e
  assume "TabPathPrefix s \<noteq> ''''"
    and "tabulator_TabStatePath ext base (TabPathPrefix s) d t = Inl e"
  with assms show "Grid ext s scope d t g = Inl (fmt_Errorf ''tab state path: %v'' [Err e])"
    by (simp add: Grid_def)
next
  assume "TabPathPrefix s \<noteq> ''''"
  with assms
  show "Grid (ext\<lparr>ResolveReference := r, path_Join := j\<rparr>) (s\<lparr>GridPathPrefix := q\<rparr>)
          scope d t g' = Grid ext s scope d t g"
    by (simp add: Grid_def split: sum.splits)
qed

text \<open>
  With the grid stored at the test-group path only, the server without a tab prefix finds
  it; with the grid stored at the tab path only, the server with a tab prefix finds it.
\<close>

theorem Grid_path_selection_witness:
  "Grid (example_collaborators (example_store group_path example_grid)) group_server
      '''' ''My Dash'' ''Tab1'' ''group1'' = Inr (Some example_grid)
   \<and> Grid (example_collaborators (example_store tab_path example_grid)) tab_server
      '''' ''My Dash'' ''Tab1'' ''group1'' = Inr (Some example_grid)"
proof -
  let ?g = "example_collaborators (example_store group_path example_grid)"
  let ?t = "example_collaborators (example_store tab_path example_grid)"
  have cg: "configPath ?g '''' = Inr ''gs://bucket/config''"
    by (simp add: example_collaborators_def)
  have ct: "configPath ?t '''' = Inr ''gs://bucket/config''"
    by (simp add: example_collaborators_def)
  have eg: "TabPathPrefix group_server = ''''"
    by (simp add: group_server_def)
  have et: "TabPathPrefix tab_server \<noteq> ''''"
    by (simp add: tab_server_def)
  have rg: "ResolveReference ?g ''gs://bucket/config''
              (path_Join ?g (GridPathPrefix group_server) ''group1'') = Inr group_path"
    by (simp add: example_collaborators_def group_server_def group_path_def)
  have rt: "tabulator_TabStatePath ?t ''gs://bucket/config'' (TabPathPrefix tab_server)
              ''My Dash'' ''Tab1'' = Inr tab_path"
    by (simp add: example_collaborators_def tab_server_def tab_path_def)
  have "Grid ?g group_server '''' ''My Dash'' ''Tab1'' ''group1'' =
      (case gcs_DownloadGrid ?g group_path of
         Inl err \<Rightarrow> Inl (fmt_Errorf ''load: %w'' [Err err])
       | Inr grid \<Rightarrow> Inr grid)"
    by (rule Grid_path_selection [OF cg, THEN conjunct1, THEN mp, OF eg,
          THEN conjunct1, THEN spec, THEN mp, OF rg])
  then have one: "Grid ?g group_server '''' ''My Dash'' ''Tab1'' ''group1'' = Inr (Some example_grid)"
    by (simp add: example_collaborators_def example_store_def)
  have "Grid ?t tab_server '''' ''My Dash'' ''Tab1'' ''group1'' = gcs_DownloadGrid ?t tab_path"
    by (rule Grid_path_selection [OF ct, THEN conjunct2, THEN mp, OF et,
          THEN conjunct1, THEN spec, THEN mp, OF rt])
  then have two: "Grid ?t tab_server '''' ''My Dash'' ''Tab1'' ''group1'' = Inr (Some example_grid)"
    by (simp add: example_collaborators_def example_store_def)
  from one two show ?thesis
    by (intro conjI)
qed

section \<open>Failures of the grid fetch\<close>

text \<open>
  C9, as the code has it. When the identity has been resolved and the grid fetch fails,
  whatever the failure, \<open>ListHeaders\<close> and \<open>ListRows\<close> return the error
  \<^verbatim>\<open>Dashboard {..} or tab {..} not found\<close> built from the two request strings, in which the
  cause is lost; when the fetch returns no error and a nil grid they return
  \<^verbatim>\<open>grid not found\<close>. The two errors are different values. The HTTP adapters answer
  both with the same status, \<^verbatim>\<open>http.StatusNotFound\<close>.
\<close>

theorem grid_fetch_failures:
  assumes "getConfig ext scope = Inr (Some c)"
    and "findDashboardTab ext (Some c) dashboard tab = Return (dn, tn, gn, None)"
  shows
    "(\<forall>e. Grid ext s scope dn tn gn = Inl e \<longrightarrow>
        ListHeaders ext s \<lparr>GetScope = scope, GetDashboard = dashboard, GetTab = tab\<rparr> =
          Return (Inl (fmt_Errorf ''Dashboard {%q} or tab {%q} not found'' [Str dashboard, Str tab]))
        \<and> ListRows ext s \<lparr>GetScope = scope, GetDashboard = dashboard, GetTab = tab\<rparr> =
          Return (Inl (fmt_Errorf ''Dashboard {%q} or tab {%q} not found'' [Str dashboard, Str tab]))
        \<and> ListHeadersHTTP ext s scope dashboard tab =
          Return (http_Error
            (fmt_Errorf ''Dashboard {%q} or tab {%q} not found'' [Str dashboard, Str tab])
            http_StatusNotFound)
        \<and> ListRowsHTTP ext s scope dashboard tab =
          Return (http_Error
            (fmt_Errorf ''Dashboard {%q} or tab {%q} not found'' [Str dashboard, Str tab])
            http_StatusNotFound))
     \<and> (Grid ext s scope dn tn gn = Inr None \<longrightarrow>
        ListHeaders ext s \<lparr>GetScope = scope, GetDashboard = dashboard, GetTab = tab\<rparr> =
          Return (Inl (errors_New ''grid not found''))
        \<and> ListRows ext s \<lparr>GetScope = scope, GetDashboard = dashboard, GetTab = tab\<rparr> =
          Return (Inl (errors_New ''grid not found''))
        \<and> ListHeadersHTTP ext s scope dashboard tab =
          Return (http_Error (errors_New ''grid not found'') http_StatusNotFound)
        \<and> ListRowsHTTP ext s scope dashboard tab =
          Return (http_Error (errors_New ''grid not found'') http_StatusNotFound))
     \<and> fmt_Errorf ''Dashboard {%q} or tab {%q} not found'' [Str dashboard, Str tab]
          \<noteq> errors_New ''grid not found''"
proof (intro conjI allI impI)
  fix e
  assume f: "Grid ext s scope dn tn gn = Inl e"
  from assms f
  show h: "ListHeaders ext s \<lparr>GetScope = scope, GetDashboard = dashboard, GetTab = tab\<rparr> =
      Return (Inl (fmt_Errorf ''Dashboard {%q} or tab {%q} not found'' [Str dashboard, Str tab]))"
    by (simp add: ListHeaders_def)
  from assms f
  show r: "ListRows ext s \<lparr>GetScope = scope, GetDashboard = dashboard, GetTab = tab\<rparr> =
      Return (Inl (fmt_Errorf ''Dashboard {%q} or tab {%q} not found'' [Str dashboard, Str tab]))"
    by (simp add: ListRows_def)
  from h show "ListHeadersHTTP ext s scope dashboard tab =
      Return (http_Error
        (fmt_Errorf ''Dashboard {%q} or tab {%q} not found'' [Str dashboard, Str tab])
        http_StatusNotFound)"
    by (simp add: ListHeadersHTTP_def)
  from r show "ListRowsHTTP ext s scope dashboard tab =
      Return (http_Error
        (fmt_Errorf ''Dashboard {%q} or tab {%q} not found'' [Str dashboard, Str tab])
        http_StatusNotFound)"
    by (simp add: ListRowsHTTP_def)
next
  assume f: "Grid ext s scope dn tn gn = Inr None"
  from assms f
  show h: "ListHeaders ext s \<lparr>GetScope = scope, GetDashboard = dashboard, GetTab = tab\<rparr> =
      Return (Inl (errors_New ''grid not found''))"
    by (simp add: ListHeaders_def)
  from assms f
  show r: "ListRows ext s \<lparr>GetScope = scope, GetDashboard = dashboard, GetTab = tab\<rparr> =
      Return (Inl (errors_New ''grid not found''))"
    by (simp add: ListRows_def)
  from h show "ListHeadersHTTP ext s scope dashboard tab =
      Return (http_Error (errors_New ''grid not found'') http_StatusNotFound)"
    by (simp add: ListHeadersHTTP_def)
  from r show "ListRowsHTTP ext s scope dashboard tab =
      Return (http_Error (errors_New ''grid not found'') http_StatusNotFound)"
    by (simp add: ListRowsHTTP_def)
next
  show "fmt_Errorf ''Dashboard {%q} or tab {%q} not found'' [Str dashboard, Str tab]
          \<noteq> errors_New ''grid not found''"
    by simp
qed

text \<open>A store whose reads fail, and a store that returns a nil grid, through the theorem.\<close>

theorem grid_fetch_failures_witness:
  "ListHeaders (example_collaborators failing_store) group_server
      \<lparr>GetScope = '''', GetDashboard = ''My Dash'', GetTab = ''Tab1''\<rparr> =
     Return (Inl (fmt_Errorf ''Dashboard {%q} or tab {%q} not found'' [Str ''My Dash'', Str ''Tab1'']))
   \<and> ListRows (example_collaborators nil_store) group_server
      \<lparr>GetScope = '''', GetDashboard = ''My Dash'', GetTab = ''Tab1''\<rparr> =
     Return (Inl (errors_New ''grid not found''))"
proof -
  have f: "Grid (example_collaborators failing_store) group_server '''' ''My Dash'' ''Tab1'' ''group1''
             = Inl (fmt_Errorf ''load: %w'' [Err (errors_New ''connection reset by peer'')])"
    by (simp add: example_Grid_group failing_store_def)
  have n: "Grid (example_collaborators nil_store) group_server '''' ''My Dash'' ''Tab1'' ''group1''
             = Inr None"
    by (simp add: example_Grid_group nil_store_def)
  have one: "ListHeaders (example_collaborators failing_store) group_server
      \<lparr>GetScope = '''', GetDashboard = ''My Dash'', GetTab = ''Tab1''\<rparr> =
     Return (Inl (fmt_Errorf ''Dashboard {%q} or tab {%q} not found'' [Str ''My Dash'', Str ''Tab1'']))"
    by (rule grid_fetch_failures [OF example_getConfig example_identity,
          THEN conjunct1, THEN spec, THEN mp, OF f, THEN conjunct1])
  have two: "ListRows (example_collaborators nil_store) group_server
      \<lparr>GetScope = '''', GetDashboard = ''My Dash'', GetTab = ''Tab1''\<rparr> =
     Return (Inl (errors_New ''grid not found''))"
    by (rule grid_fetch_failures [OF example_getConfig example_identity,
          THEN conjunct2, THEN conjunct1, THEN mp, OF n, THEN conjunct2, THEN conjunct1])
  from one two show ?thesis
    by (intro conjI)
qed

text \<open>
  C9, as it is stated, fails: a read that fails with \<^verbatim>\<open>connection reset by peer\<close> is
  answered with a not-found message and with status 404, the status of the nil grid.
\<close>

theorem grid_fetch_status_counterexample:
  "ListHeadersHTTP (example_collaborators failing_store) group_server '''' ''My Dash'' ''Tab1'' =
     Return (http_Error
       (fmt_Errorf ''Dashboard {%q} or tab {%q} not found'' [Str ''My Dash'', Str ''Tab1'']) 404)
   \<and> ListHeadersHTTP (example_collaborators nil_store) group_server '''' ''My Dash'' ''Tab1'' =
     Return (http_Error (errors_New ''grid not found'') 404)"
  by (simp add: ListHeadersHTTP_def ListHeaders_def example_getConfig example_identity
      example_Grid_group failing_store_def nil_store_def http_StatusNotFound_def)

section \<open>Properties of float64 arithmetic\<close>

lemma round_half_even_of_int: "round_half_even (of_int n) = n"
  by (simp add: round_half_even_def)



lemma float64_ulp_below:
  assumes "x \<noteq> 0" and "\<bar>x\<bar> < 2 ^ N" and "N \<le> 53"
  shows "\<exists>J. 53 \<le> J + N \<and> float64_ulp x = 1 / 2 ^ J"
proof -
  define L where "L = \<lfloor>log 2 \<bar>x\<bar>\<rfloor>"
  define e where "e = max L (- 1022)"
  from assms(1) have pos: "0 < \<bar>x\<bar>" by simp
  have "\<not> (2 :: real) powr real N \<le> \<bar>x\<bar>"
    using assms(2) by (simp add: powr_realpow)
  then have "\<not> real N \<le> log 2 \<bar>x\<bar>"
    using le_log_iff [of 2 "\<bar>x\<bar>" "real N"] pos by simp
  then have "log 2 \<bar>x\<bar> < of_int (int N)" by simp
  then have L: "L < int N"
    unfolding L_def by (simp only: floor_less_iff)
  with assms(3) have e: "e < int N" "e \<le> 52"
    unfolding e_def by simp_all
  define J where "J = nat (52 - e)"
  from e have J: "int J = 52 - e" by (simp add: J_def)
  with e have "53 \<le> J + N" by linarith
  moreover have "float64_ulp x = 1 / 2 ^ J"
  proof -
    have "e - 52 = - int J" using J by simp
    then have "float64_ulp x = power_int 2 (- int J)"
      by (simp only: float64_ulp_def L_def [symmetric] e_def [symmetric])
    also have "\<dots> = 1 / 2 ^ J"
      by (simp add: power_int_minus_divide)
    finally show ?thesis .
  qed
  ultimately show ?thesis by blast
qed

lemma round64_on_grid:
  assumes "x \<noteq> 0" and "float64_ulp x = 1 / 2 ^ J"
    and "\<bar>of_int (round_half_even (x * 2 ^ J)) / 2 ^ J\<bar> < (2 :: real) ^ 1024"
  shows "round64 x = Finite (of_int (round_half_even (x * 2 ^ J)) / 2 ^ J)"
  using assms by (simp add: round64_def Let_def)

lemma round64_of_int:
  assumes "\<bar>n\<bar> < 2 ^ 53"
  shows "round64 (of_int n) = Finite (of_int n)"
proof (cases "n = 0")
  case True
  then show ?thesis by (simp add: round64_def)
next
  case False
  then have nz: "(of_int n :: real) \<noteq> 0" by simp
  from assms have "\<bar>of_int n :: real\<bar> < 2 ^ 53"
    by (metis of_int_abs of_int_less_numeral_power_cancel_iff)
  from float64_ulp_below [OF nz this]
  obtain J where u: "float64_ulp (of_int n) = 1 / 2 ^ J" by auto
  have r: "round_half_even (of_int n * 2 ^ J) = n * 2 ^ J"
    using round_half_even_of_int [of "n * 2 ^ J"] by simp
  have v: "(of_int (n * 2 ^ J) :: real) / 2 ^ J = of_int n"
    by simp
  have "\<bar>of_int n :: real\<bar> < 2 ^ 1024"
  proof -
    have "\<bar>of_int n :: real\<bar> < 2 ^ 53" by fact
    also have "(2 :: real) ^ 53 \<le> 2 ^ 1024" by (rule power_increasing) simp_all
    finally show ?thesis .
  qed
  with round64_on_grid [OF nz u] show ?thesis
    by (simp only: r v)
qed



lemma float64_ulp_at:
  assumes "power_int 2 e \<le> \<bar>x\<bar>" and "\<bar>x\<bar> < power_int 2 (e + 1)" and "- 1022 \<le> e"
  shows "float64_ulp x = power_int 2 (e - 52)"
proof -
  have "(0 :: real) < power_int 2 e" by simp
  then have pos: "0 < \<bar>x\<bar>" using assms(1) by (rule less_le_trans)
  have p: "(2 :: real) powr real_of_int n = power_int 2 n" for n
    by (rule powr_real_of_int') simp_all
  have "of_int e + 1 = (of_int (e + 1) :: real)" by simp
  with assms(1,2) have "2 powr real_of_int e \<le> \<bar>x\<bar> \<and> \<bar>x\<bar> < 2 powr (real_of_int e + 1)"
    by (simp only: p)
  with floor_log_eq_powr_iff [of "\<bar>x\<bar>" 2 e] pos have "\<lfloor>log 2 \<bar>x\<bar>\<rfloor> = e"
    by simp
  with assms(3) show ?thesis
    by (simp add: float64_ulp_def)
qed



lemma round64_at:
  assumes "power_int 2 (52 - int J) \<le> \<bar>x\<bar>" and "\<bar>x\<bar> < power_int 2 (53 - int J)"
    and "J \<le> 1074"
    and "\<bar>of_int (round_half_even (x * 2 ^ J)) / 2 ^ J\<bar> < (2 :: real) ^ 1024"
  shows "round64 x = Finite (of_int (round_half_even (x * 2 ^ J)) / 2 ^ J)"
proof -
  have "(0 :: real) < power_int 2 (52 - int J)" by simp
  then have "0 < \<bar>x\<bar>" using assms(1) by (rule less_le_trans)
  then have nz: "x \<noteq> 0" by simp
  have e1: "(52 - int J) + 1 = 53 - int J" by simp
  have up: "\<bar>x\<bar> < power_int 2 ((52 - int J) + 1)"
    unfolding e1 by (rule assms(2))
  have lo: "- 1022 \<le> 52 - int J" using assms(3) by linarith
  have e2: "52 - int J - 52 = - int J" by simp
  have "float64_ulp x = power_int 2 (- int J)"
    using float64_ulp_at [OF assms(1) up lo] unfolding e2 .
  also have "\<dots> = 1 / 2 ^ J"
    by (simp only: power_int_minus_divide power_int_of_nat)
  finally have "float64_ulp x = 1 / 2 ^ J" .
  from round64_on_grid [OF nz this assms(4)] show ?thesis .
qed





section \<open>Properties of ListHeaders\<close>








text \<open>The three started values of the counterexample below are float64 values.\<close>

lemma counterexample_values_are_float64:
  "round64 (- 1500) = Finite (- 1500)"
  "round64 141166349980158992 = Finite 141166349980158992"
  "round64 (5404319552844595 / 2 ^ 54) = Finite (5404319552844595 / 2 ^ 54)"
proof -
  show "round64 (- 1500) = Finite (- 1500)"
    using round64_of_int [of "- 1500"] by simp
  have "float64_ulp 141166349980158992 = power_int 2 (56 - 52)"
    by (rule float64_ulp_at) simp_all
  then show "round64 141166349980158992 = Finite 141166349980158992"
    by (simp add: round64_def round_half_even_def)
  have "round64 (5404319552844595 / 2 ^ 54)
          = Finite (of_int (round_half_even (5404319552844595 / 2 ^ 54 * 2 ^ 54)) / 2 ^ 54)"
    by (rule round64_at) (simp_all add: round_half_even_def)
  then show "round64 (5404319552844595 / 2 ^ 54) = Finite (5404319552844595 / 2 ^ 54)"
    by (simp add: round_half_even_def)
qed


section \<open>Properties of ListRows\<close>

lemma decode_pairs:
  "decode enc = (if even (length enc) then concat (map expand (pairs enc)) else [])"
  by (simp add: decode_def decodeRLE_pairs)

lemma decodeRLE_decode: "decodeRLE enc = Return (decode enc)"
  by (simp add: decode_def decodeRLE_pairs)

lemma ListRows_cells_covered:
  "n \<le> length dec \<Longrightarrow> n \<le> length (Row_CellIds gRow) \<Longrightarrow> n \<le> length (Row_Messages gRow)
   \<Longrightarrow> n \<le> length (Row_Icons gRow) \<Longrightarrow> i \<le> n \<Longrightarrow>
   ListRows_cells gRow dec n i cells =
     Return (cells @ map (\<lambda>k. \<lparr>Cell_Result = dec ! k,
                                  Cell_CellId = Row_CellIds gRow ! k,
                                  Cell_Message = Row_Messages gRow ! k,
                                  Cell_Icon = Row_Icons gRow ! k\<rparr>) [i..<n])"
proof (induction gRow dec n i cells rule: ListRows_cells.induct)
  case (1 gRow dec n i cells)
  show ?case
  proof (cases "i < n")
    case False
    with "1.prems" show ?thesis
      by (subst ListRows_cells.simps) simp
  next
    case True
    with "1.prems" have inb: "i < length dec \<and> i < length (Row_CellIds gRow)
        \<and> i < length (Row_Messages gRow) \<and> i < length (Row_Icons gRow)"
      by simp
    from True have u: "[i..<n] = i # [i + 1..<n]"
      by (simp add: upt_conv_Cons)
    from True have "i + 1 \<le> n" by simp
    with "1.IH" [OF True inb] "1.prems" True inb show ?thesis
      by (subst ListRows_cells.simps) (simp add: u)
  qed
qed

lemma ListRows_cells_short:
  "i < n \<Longrightarrow>
   \<not> (n \<le> length dec \<and> n \<le> length (Row_CellIds gRow) \<and> n \<le> length (Row_Messages gRow)
        \<and> n \<le> length (Row_Icons gRow)) \<Longrightarrow>
   ListRows_cells gRow dec n i cells = Panic IndexOutOfRange"
proof (induction gRow dec n i cells rule: ListRows_cells.induct)
  case (1 gRow dec n i cells)
  show ?case
  proof (cases "i < length dec \<and> i < length (Row_CellIds gRow)
        \<and> i < length (Row_Messages gRow) \<and> i < length (Row_Icons gRow)")
    case False
    with "1.prems"(1) show ?thesis
      by (subst ListRows_cells.simps) auto
  next
    case True
    with "1.prems" have "i + 1 < n"
      by (cases "i + 1 = n") auto
    then have "ListRows_cells gRow dec n (i + 1)
          (cells @ [\<lparr>Cell_Result = dec ! i, Cell_CellId = Row_CellIds gRow ! i,
                      Cell_Message = Row_Messages gRow ! i,
                      Cell_Icon = Row_Icons gRow ! i\<rparr>]) = Panic IndexOutOfRange"
      using "1.IH" [OF "1.prems"(1) True] "1.prems"(2) by blast
    with "1.prems"(1) True show ?thesis
      by (subst ListRows_cells.simps) simp
  qed
qed

lemma map_upt_zip_cells:
  assumes "length cellIds \<le> length results" "length cellIds \<le> length messages"
    "length cellIds \<le> length icons"
  shows "map (\<lambda>k. \<lparr>Cell_Result = results ! k, Cell_CellId = cellIds ! k,
                    Cell_Message = messages ! k, Cell_Icon = icons ! k\<rparr>) [0..<length cellIds]
         = zip_cells results cellIds messages icons"
proof (rule nth_equalityI)
  from assms
  show "length (map (\<lambda>k. \<lparr>Cell_Result = results ! k, Cell_CellId = cellIds ! k,
                    Cell_Message = messages ! k, Cell_Icon = icons ! k\<rparr>) [0..<length cellIds])
        = length (zip_cells results cellIds messages icons)"
    by (simp add: zip_cells_def)
next
  fix k
  assume "k < length (map (\<lambda>k. \<lparr>Cell_Result = results ! k, Cell_CellId = cellIds ! k,
                    Cell_Message = messages ! k, Cell_Icon = icons ! k\<rparr>) [0..<length cellIds])"
  then have "k < length cellIds" by simp
  with assms
  show "map (\<lambda>k. \<lparr>Cell_Result = results ! k, Cell_CellId = cellIds ! k,
                    Cell_Message = messages ! k, Cell_Icon = icons ! k\<rparr>) [0..<length cellIds] ! k
        = zip_cells results cellIds messages icons ! k"
    by (simp add: zip_cells_def)
qed

lemma length_zip_cells_covered:
  "covered gRow \<Longrightarrow>
   length (zip_cells (decode (Row_Results gRow)) (Row_CellIds gRow) (Row_Messages gRow)
             (Row_Icons gRow)) = length (Row_CellIds gRow)"
  by (simp add: covered_def zip_cells_def)

lemma nth_zip_cells:
  "k < length results \<Longrightarrow> k < length cellIds \<Longrightarrow> k < length messages \<Longrightarrow> k < length icons \<Longrightarrow>
   zip_cells results cellIds messages icons ! k =
     \<lparr>Cell_Result = results ! k, Cell_CellId = cellIds ! k,
      Cell_Message = messages ! k, Cell_Icon = icons ! k\<rparr>"
  by (simp add: zip_cells_def)

lemma ListRows_row_covered:
  "covered gRow \<Longrightarrow> ListRows_row gRow = Return (row_record gRow)"
  by (simp add: ListRows_row_def decodeRLE_decode covered_def ListRows_cells_covered
      map_upt_zip_cells row_record_def)

lemma ListRows_row_short:
  assumes "\<not> covered gRow"
  shows "ListRows_row gRow = Panic IndexOutOfRange"
proof -
  from assms have "0 < length (Row_CellIds gRow)"
    by (auto simp: covered_def)
  moreover from assms
  have "\<not> (length (Row_CellIds gRow) \<le> length (decode (Row_Results gRow))
          \<and> length (Row_CellIds gRow) \<le> length (Row_CellIds gRow)
          \<and> length (Row_CellIds gRow) \<le> length (Row_Messages gRow)
          \<and> length (Row_CellIds gRow) \<le> length (Row_Icons gRow))"
    by (simp add: covered_def)
  ultimately
  have "ListRows_cells gRow (decode (Row_Results gRow)) (length (Row_CellIds gRow)) 0 []
          = Panic IndexOutOfRange"
    by (rule ListRows_cells_short)
  then show ?thesis
    by (simp add: ListRows_row_def decodeRLE_decode)
qed

lemma ListRows_loop_covered:
  "\<forall>gRow \<in> set gRows. covered gRow \<Longrightarrow>
   ListRows_loop gRows rows = Return (rows @ map row_record gRows)"
  by (induction gRows arbitrary: rows) (simp_all add: ListRows_row_covered)

lemma ListRows_loop_short:
  "\<exists>gRow \<in> set gRows. \<not> covered gRow \<Longrightarrow> ListRows_loop gRows rows = Panic IndexOutOfRange"
proof (induction gRows arbitrary: rows)
  case Nil
  then show ?case by simp
next
  case (Cons gRow gRows)
  show ?case
  proof (cases "covered gRow")
    case True
    with Cons.prems have "\<exists>gRow \<in> set gRows. \<not> covered gRow" by auto
    with Cons.IH True show ?thesis
      by (simp add: ListRows_row_covered)
  next
    case False
    then show ?thesis
      by (simp add: ListRows_row_short)
  qed
qed

lemma aligned_covered: "aligned gRow \<Longrightarrow> covered gRow"
  by (simp add: aligned_def covered_def)

lemma ListRows_fetched:
  assumes "getConfig ext (GetScope req) = Inr (Some c)"
    and "findDashboardTab ext (Some c) (GetDashboard req) (GetTab req) = Return (dn, tn, gn, None)"
    and "Grid ext s (GetScope req) dn tn gn = Inr (Some grid)"
  shows "ListRows ext s req =
           (case ListRows_loop (Grid_Rows grid) [] of
              Panic p \<Rightarrow> Panic p
            | Return rows \<Rightarrow> Return (Inr \<lparr>Rows = rows\<rparr>))"
  using assms by (simp add: ListRows_def)

text \<open>
  C7. When every row of the fetched grid satisfies the alignment invariant, \<open>ListRows\<close>
  returns one row record for each grid row, in the order of the grid, with the name, the
  issues and the alert of the row, and with cells that are the positional zip of the
  decoded results, the cell ids, the messages and the icons: as many cells as cell ids,
  the cell at each index made of the four elements at that index.
\<close>

theorem ListRows_aligned_rows:
  assumes "getConfig ext (GetScope req) = Inr (Some c)"
    and "findDashboardTab ext (Some c) (GetDashboard req) (GetTab req) = Return (dn, tn, gn, None)"
    and "Grid ext s (GetScope req) dn tn gn = Inr (Some grid)"
    and "\<forall>gRow \<in> set (Grid_Rows grid). aligned gRow"
  shows
    "\<exists>rows. ListRows ext s req = Return (Inr \<lparr>Rows = rows\<rparr>)
       \<and> length rows = length (Grid_Rows grid)
       \<and> (\<forall>j. j < length rows \<longrightarrow>
            ResponseRow_Name (rows ! j) = Row_Name (Grid_Rows grid ! j)
            \<and> ResponseRow_Issues (rows ! j) = Row_Issues (Grid_Rows grid ! j)
            \<and> ResponseRow_Alert (rows ! j) = Row_AlertInfo (Grid_Rows grid ! j)
            \<and> decodeRLE (Row_Results (Grid_Rows grid ! j))
                = Return (decode (Row_Results (Grid_Rows grid ! j)))
            \<and> ResponseRow_Cells (rows ! j)
                = zip_cells (decode (Row_Results (Grid_Rows grid ! j)))
                    (Row_CellIds (Grid_Rows grid ! j)) (Row_Messages (Grid_Rows grid ! j))
                    (Row_Icons (Grid_Rows grid ! j))
            \<and> length (ResponseRow_Cells (rows ! j)) = length (Row_CellIds (Grid_Rows grid ! j))
            \<and> (\<forall>i. i < length (Row_CellIds (Grid_Rows grid ! j)) \<longrightarrow>
                  ResponseRow_Cells (rows ! j) ! i =
                    \<lparr>Cell_Result = decode (Row_Results (Grid_Rows grid ! j)) ! i,
                     Cell_CellId = Row_CellIds (Grid_Rows grid ! j) ! i,
                     Cell_Message = Row_Messages (Grid_Rows grid ! j) ! i,
                     Cell_Icon = Row_Icons (Grid_Rows grid ! j) ! i\<rparr>))"
proof -
  let ?rows = "map row_record (Grid_Rows grid)"
  from assms(4) have cov: "\<forall>gRow \<in> set (Grid_Rows grid). covered gRow"
    by (simp add: aligned_covered)
  have ret: "ListRows ext s req = Return (Inr \<lparr>Rows = ?rows\<rparr>)"
    by (simp add: ListRows_fetched [OF assms(1-3)] ListRows_loop_covered [OF cov])
  have len: "length ?rows = length (Grid_Rows grid)"
    by simp
  have each: "ResponseRow_Name (?rows ! j) = Row_Name (Grid_Rows grid ! j)
            \<and> ResponseRow_Issues (?rows ! j) = Row_Issues (Grid_Rows grid ! j)
            \<and> ResponseRow_Alert (?rows ! j) = Row_AlertInfo (Grid_Rows grid ! j)
            \<and> decodeRLE (Row_Results (Grid_Rows grid ! j))
                = Return (decode (Row_Results (Grid_Rows grid ! j)))
            \<and> ResponseRow_Cells (?rows ! j)
                = zip_cells (decode (Row_Results (Grid_Rows grid ! j)))
                    (Row_CellIds (Grid_Rows grid ! j)) (Row_Messages (Grid_Rows grid ! j))
                    (Row_Icons (Grid_Rows grid ! j))
            \<and> length (ResponseRow_Cells (?rows ! j)) = length (Row_CellIds (Grid_Rows grid ! j))
            \<and> (\<forall>i. i < length (Row_CellIds (Grid_Rows grid ! j)) \<longrightarrow>
                  ResponseRow_Cells (?rows ! j) ! i =
                    \<lparr>Cell_Result = decode (Row_Results (Grid_Rows grid ! j)) ! i,
                     Cell_CellId = Row_CellIds (Grid_Rows grid ! j) ! i,
                     Cell_Message = Row_Messages (Grid_Rows grid ! j) ! i,
                     Cell_Icon = Row_Icons (Grid_Rows grid ! j) ! i\<rparr>)"
    if j: "j < length ?rows" for j
  proof -
    let ?g = "Grid_Rows grid ! j"
    from j have jn: "j < length (Grid_Rows grid)" by simp
    then have r: "?rows ! j = row_record ?g" by simp
    from jn assms(4) have al: "aligned ?g" by simp
    then have cv: "covered ?g" by (rule aligned_covered)
    have cells: "ResponseRow_Cells (row_record ?g)
        = zip_cells (decode (Row_Results ?g)) (Row_CellIds ?g) (Row_Messages ?g) (Row_Icons ?g)"
      by (simp add: row_record_def)
    have nth: "ResponseRow_Cells (row_record ?g) ! i =
                    \<lparr>Cell_Result = decode (Row_Results ?g) ! i,
                     Cell_CellId = Row_CellIds ?g ! i,
                     Cell_Message = Row_Messages ?g ! i,
                     Cell_Icon = Row_Icons ?g ! i\<rparr>"
      if "i < length (Row_CellIds ?g)" for i
      unfolding cells using that al by (intro nth_zip_cells) (simp_all add: aligned_def)
    show ?thesis
      unfolding r
      using nth by (simp add: row_record_def decodeRLE_decode length_zip_cells_covered [OF cv])
  qed
  from ret len each show ?thesis
    by blast
qed

text \<open>
  The example of the specification: results \<open>[1, 2]\<close>, which decode to \<open>[1, 1]\<close>, with
  two cell ids, messages and icons, give two cells.
\<close>

theorem ListRows_aligned_rows_witness:
  "\<exists>rows. ListRows (example_collaborators (example_store group_path example_grid)) group_server
            \<lparr>GetScope = '''', GetDashboard = ''My Dash'', GetTab = ''Tab1''\<rparr>
          = Return (Inr \<lparr>Rows = rows\<rparr>)
      \<and> length rows = 1
      \<and> ResponseRow_Cells (rows ! 0) =
          [\<lparr>Cell_Result = 1, Cell_CellId = ''a'', Cell_Message = ''m1'', Cell_Icon = ''i1''\<rparr>,
           \<lparr>Cell_Result = 1, Cell_CellId = ''b'', Cell_Message = ''m2'', Cell_Icon = ''i2''\<rparr>]"
proof -
  let ?ext = "example_collaborators (example_store group_path example_grid)"
  let ?req = "\<lparr>GetScope = '''', GetDashboard = ''My Dash'', GetTab = ''Tab1''\<rparr>"
  have cfg: "getConfig ?ext (GetScope ?req) = Inr (Some example_config)"
    by (simp add: example_getConfig)
  have ident: "findDashboardTab ?ext (Some example_config) (GetDashboard ?req) (GetTab ?req)
                 = Return (''My Dash'', ''Tab1'', ''group1'', None)"
    by (simp add: example_identity)
  have grid: "Grid ?ext group_server (GetScope ?req) ''My Dash'' ''Tab1'' ''group1''
                = Inr (Some example_grid)"
    by (simp add: example_Grid_group example_store_def)
  have dec: "decode [1, 2] = [1, 1]"
    by (simp add: decode_pairs expand_pair eval_nat_numeral)
  have al: "\<forall>gRow \<in> set (Grid_Rows example_grid). aligned gRow"
    by (simp add: example_grid_def example_row_def aligned_def dec)
  from ListRows_aligned_rows [OF cfg ident grid al]
  obtain rows where h: "ListRows ?ext group_server ?req = Return (Inr \<lparr>Rows = rows\<rparr>)
       \<and> length rows = length (Grid_Rows example_grid)
       \<and> (\<forall>j. j < length rows \<longrightarrow>
            ResponseRow_Name (rows ! j) = Row_Name (Grid_Rows example_grid ! j)
            \<and> ResponseRow_Issues (rows ! j) = Row_Issues (Grid_Rows example_grid ! j)
            \<and> ResponseRow_Alert (rows ! j) = Row_AlertInfo (Grid_Rows example_grid ! j)
            \<and> decodeRLE (Row_Results (Grid_Rows example_grid ! j))
                = Return (decode (Row_Results (Grid_Rows example_grid ! j)))
            \<and> ResponseRow_Cells (rows ! j)
                = zip_cells (decode (Row_Results (Grid_Rows example_grid ! j)))
                    (Row_CellIds (Grid_Rows example_grid ! j))
                    (Row_Messages (Grid_Rows example_grid ! j))
                    (Row_Icons (Grid_Rows example_grid ! j))
            \<and> length (ResponseRow_Cells (rows ! j))
                = length (Row_CellIds (Grid_Rows example_grid ! j))
            \<and> (\<forall>i. i < length (Row_CellIds (Grid_Rows example_grid ! j)) \<longrightarrow>
                  ResponseRow_Cells (rows ! j) ! i =
                    \<lparr>Cell_Result = decode (Row_Results (Grid_Rows example_grid ! j)) ! i,
                     Cell_CellId = Row_CellIds (Grid_Rows example_grid ! j) ! i,
                     Cell_Message = Row_Messages (Grid_Rows example_grid ! j) ! i,
                     Cell_Icon = Row_Icons (Grid_Rows example_grid ! j) ! i\<rparr>))" ..
  from h have ret: "ListRows ?ext group_server ?req = Return (Inr \<lparr>Rows = rows\<rparr>)"
    by (rule conjunct1)
  from h have len: "length rows = 1"
    by (simp add: example_grid_def)
  then have "0 < length rows" by simp
  with h have "ResponseRow_Cells (rows ! 0)
                = zip_cells (decode (Row_Results (Grid_Rows example_grid ! 0)))
                    (Row_CellIds (Grid_Rows example_grid ! 0))
                    (Row_Messages (Grid_Rows example_grid ! 0))
                    (Row_Icons (Grid_Rows example_grid ! 0))"
    by blast
  then have cells: "ResponseRow_Cells (rows ! 0) =
          [\<lparr>Cell_Result = 1, Cell_CellId = ''a'', Cell_Message = ''m1'', Cell_Icon = ''i1''\<rparr>,
           \<lparr>Cell_Result = 1, Cell_CellId = ''b'', Cell_Message = ''m2'', Cell_Icon = ''i2''\<rparr>]"
    by (simp add: example_grid_def example_row_def dec zip_cells_def)
  from ret len cells show ?thesis
    by blast
qed

text \<open>
  C2, as the code has it. \<open>ListRows\<close> does not compare the lengths and has no error for
  a malformed grid. When, in every row, the decoded results, the messages and the icons
  are at least as long as the cell ids, it returns every row with as many cells as the
  row has cell ids, zipped from the leading elements: what lies beyond is dropped without
  notice. When, in some row, one of the three is shorter than the cell ids, the call
  panics with an index out of range and returns nothing. In neither case is an error
  returned.
\<close>

theorem ListRows_unchecked_lengths:
  assumes "getConfig ext (GetScope req) = Inr (Some c)"
    and "findDashboardTab ext (Some c) (GetDashboard req) (GetTab req) = Return (dn, tn, gn, None)"
    and "Grid ext s (GetScope req) dn tn gn = Inr (Some grid)"
  shows
    "((\<forall>gRow \<in> set (Grid_Rows grid). covered gRow) \<longrightarrow>
        ListRows ext s req = Return (Inr \<lparr>Rows = map row_record (Grid_Rows grid)\<rparr>)
        \<and> (\<forall>gRow \<in> set (Grid_Rows grid).
              length (ResponseRow_Cells (row_record gRow)) = length (Row_CellIds gRow)))
     \<and> ((\<exists>gRow \<in> set (Grid_Rows grid). \<not> covered gRow) \<longrightarrow>
        ListRows ext s req = Panic IndexOutOfRange)
     \<and> (\<forall>e. ListRows ext s req \<noteq> Return (Inl e))"
proof -
  note fetched = ListRows_fetched [OF assms]
  have one: "ListRows ext s req = Return (Inr \<lparr>Rows = map row_record (Grid_Rows grid)\<rparr>)"
    if "\<forall>gRow \<in> set (Grid_Rows grid). covered gRow"
    by (simp add: fetched ListRows_loop_covered [OF that])
  have lens: "\<forall>gRow \<in> set (Grid_Rows grid).
              length (ResponseRow_Cells (row_record gRow)) = length (Row_CellIds gRow)"
    if "\<forall>gRow \<in> set (Grid_Rows grid). covered gRow"
    using that by (simp add: row_record_def length_zip_cells_covered)
  have two: "ListRows ext s req = Panic IndexOutOfRange"
    if "\<exists>gRow \<in> set (Grid_Rows grid). \<not> covered gRow"
    by (simp add: fetched ListRows_loop_short [OF that])
  have three: "ListRows ext s req \<noteq> Return (Inl e)" for e
  proof (cases "\<forall>gRow \<in> set (Grid_Rows grid). covered gRow")
    case True
    from one [OF True] show ?thesis by simp
  next
    case False
    then have "\<exists>gRow \<in> set (Grid_Rows grid). \<not> covered gRow" by simp
    from two [OF this] show ?thesis by simp
  qed
  from one lens two three show ?thesis
    by blast
qed

text \<open>
  A row of one cell id whose results decode to three values is returned with one cell; a
  row of two cell ids whose results decode to one value makes the call panic.
\<close>

theorem ListRows_unchecked_lengths_witness:
  "ListRows
     (example_collaborators (example_store group_path
        \<lparr>Grid_Columns = [], Grid_Rows = [example_row [1, 3] [''a''] [''m''] [''i'']]\<rparr>))
     group_server \<lparr>GetScope = '''', GetDashboard = ''My Dash'', GetTab = ''Tab1''\<rparr>
   = Return (Inr \<lparr>Rows = [row_record (example_row [1, 3] [''a''] [''m''] [''i''])]\<rparr>)
   \<and> ListRows
     (example_collaborators (example_store group_path
        \<lparr>Grid_Columns = [],
         Grid_Rows = [example_row [1, 1] [''a'', ''b''] [''m1'', ''m2''] [''i1'', ''i2'']]\<rparr>))
     group_server \<lparr>GetScope = '''', GetDashboard = ''My Dash'', GetTab = ''Tab1''\<rparr>
   = Panic IndexOutOfRange"
proof -
  let ?long = "\<lparr>Grid_Columns = [], Grid_Rows = [example_row [1, 3] [''a''] [''m''] [''i'']]\<rparr>"
  let ?short = "\<lparr>Grid_Columns = [],
         Grid_Rows = [example_row [1, 1] [''a'', ''b''] [''m1'', ''m2''] [''i1'', ''i2'']]\<rparr>"
  let ?req = "\<lparr>GetScope = '''', GetDashboard = ''My Dash'', GetTab = ''Tab1''\<rparr>"
  have cfg: "getConfig (example_collaborators download) (GetScope ?req) = Inr (Some example_config)"
    for download
    by (simp add: example_getConfig)
  have ident: "findDashboardTab (example_collaborators download) (Some example_config)
                 (GetDashboard ?req) (GetTab ?req)
                 = Return (''My Dash'', ''Tab1'', ''group1'', None)" for download
    by (simp add: example_identity)
  have grid: "Grid (example_collaborators (example_store group_path g)) group_server
                (GetScope ?req) ''My Dash'' ''Tab1'' ''group1'' = Inr (Some g)" for g
    by (simp add: example_Grid_group example_store_def)
  have d3: "decode [1, 3] = [1, 1, 1]"
    by (simp add: decode_pairs expand_pair eval_nat_numeral)
  have d1: "decode [1, 1] = [1]"
    by (simp add: decode_pairs expand_pair)
  have cov: "\<forall>gRow \<in> set (Grid_Rows ?long). covered gRow"
    by (simp add: example_row_def covered_def d3)
  have unc: "\<exists>gRow \<in> set (Grid_Rows ?short). \<not> covered gRow"
    by (simp add: example_row_def covered_def d1)
  have "ListRows (example_collaborators (example_store group_path ?long)) group_server ?req
          = Return (Inr \<lparr>Rows = map row_record (Grid_Rows ?long)\<rparr>)"
    by (rule ListRows_unchecked_lengths [OF cfg ident grid,
          THEN conjunct1, THEN mp, OF cov, THEN conjunct1])
  then have one: "ListRows (example_collaborators (example_store group_path ?long)) group_server ?req
          = Return (Inr \<lparr>Rows = [row_record (example_row [1, 3] [''a''] [''m''] [''i''])]\<rparr>)"
    by simp
  have two: "ListRows (example_collaborators (example_store group_path ?short)) group_server ?req
          = Panic IndexOutOfRange"
    by (rule ListRows_unchecked_lengths [OF cfg ident grid,
          THEN conjunct2, THEN conjunct1, THEN mp, OF unc])
  from one two show ?thesis
    by (intro conjI)
qed

text \<open>
  C2, as it is stated, fails: the results \<open>[1, 3]\<close> decode to three values, the row has
  one cell id, one message and one icon, and \<open>ListRows\<close> returns the row with one cell
  and no error.
\<close>

theorem ListRows_truncation_counterexample:
  "decodeRLE [1, 3] = Return [1, 1, 1]
   \<and> ListRows
       (example_collaborators (example_store group_path
          \<lparr>Grid_Columns = [], Grid_Rows = [example_row [1, 3] [''a''] [''m''] [''i'']]\<rparr>))
       group_server \<lparr>GetScope = '''', GetDashboard = ''My Dash'', GetTab = ''Tab1''\<rparr>
     = Return (Inr \<lparr>Rows =
         [\<lparr>ResponseRow_Name = ''test'', ResponseRow_Issues = [], ResponseRow_Alert = None,
           ResponseRow_Cells =
             [\<lparr>Cell_Result = 1, Cell_CellId = ''a'', Cell_Message = ''m'', Cell_Icon = ''i''\<rparr>]\<rparr>]\<rparr>)"
proof -
  have d: "decodeRLE [1, 3] = Return [1, 1, 1]"
    by (simp add: decodeRLE_pairs expand_pair eval_nat_numeral)
  then have row: "ListRows_row (example_row [1, 3] [''a''] [''m''] [''i'']) =
      Return \<lparr>ResponseRow_Name = ''test'', ResponseRow_Issues = [], ResponseRow_Alert = None,
           ResponseRow_Cells =
             [\<lparr>Cell_Result = 1, Cell_CellId = ''a'', Cell_Message = ''m'', Cell_Icon = ''i''\<rparr>]\<rparr>"
    by (simp add: ListRows_row_def example_row_def ListRows_cells.simps)
  have "ListRows
       (example_collaborators (example_store group_path
          \<lparr>Grid_Columns = [], Grid_Rows = [example_row [1, 3] [''a''] [''m''] [''i'']]\<rparr>))
       group_server \<lparr>GetScope = '''', GetDashboard = ''My Dash'', GetTab = ''Tab1''\<rparr>
     = Return (Inr \<lparr>Rows =
         [\<lparr>ResponseRow_Name = ''test'', ResponseRow_Issues = [], ResponseRow_Alert = None,
           ResponseRow_Cells =
             [\<lparr>Cell_Result = 1, Cell_CellId = ''a'', Cell_Message = ''m'', Cell_Icon = ''i''\<rparr>]\<rparr>]\<rparr>)"
    by (simp add: ListRows_def example_getConfig example_identity example_Grid_group
        example_store_def row)
  with d show ?thesis
    by (intro conjI)
qed

end
